theory Spec2Isabelle
  imports Complex_Main
begin

section \<open>Vectors\<close>

text \<open>
  The controller computes with the engine's \<^verbatim>\<open>Vec3\<close> (three floats).  The embedding
  is over the real numbers: every float operation is read as the exact operation, so a
  property stated ``within tolerance'' is stated here as an exact equation.

  \<^verbatim>\<open>Vec3.normalized()\<close> is the engine's: it divides by the length, and on a vector
  of length zero it returns the zero vector (it neither raises nor divides).
\<close>

datatype vec3 = Vec3 (vx: real) (vy: real) (vz: real)

definition vzero :: vec3 where
  "vzero = Vec3 0 0 0"

definition vadd :: "vec3 \<Rightarrow> vec3 \<Rightarrow> vec3" where
  "vadd a b = Vec3 (vx a + vx b) (vy a + vy b) (vz a + vz b)"

definition vsub :: "vec3 \<Rightarrow> vec3 \<Rightarrow> vec3" where
  "vsub a b = Vec3 (vx a - vx b) (vy a - vy b) (vz a - vz b)"

definition vneg :: "vec3 \<Rightarrow> vec3" where
  "vneg a = Vec3 (- vx a) (- vy a) (- vz a)"

definition vmul :: "vec3 \<Rightarrow> real \<Rightarrow> vec3" where
  "vmul a c = Vec3 (vx a * c) (vy a * c) (vz a * c)"

definition dot :: "vec3 \<Rightarrow> vec3 \<Rightarrow> real" where
  "dot a b = vx a * vx b + vy a * vy b + vz a * vz b"

definition length_squared :: "vec3 \<Rightarrow> real" where
  "length_squared a = vx a * vx a + vy a * vy a + vz a * vz a"

definition vlength :: "vec3 \<Rightarrow> real" where
  "vlength a = sqrt (length_squared a)"

definition normalized :: "vec3 \<Rightarrow> vec3" where
  "normalized a =
     (if length_squared a = 0 then vzero else vmul a (1 / vlength a))"

text \<open>Python's \<^verbatim>\<open>round(x, ndigits)\<close>: to the nearest multiple of \<open>10^-ndigits\<close>, a tie going
  to the even one.\<close>

definition round_half_even :: "real \<Rightarrow> int" where
  "round_half_even x =
     (let f = \<lfloor>x\<rfloor>; d = x - of_int f
      in if d < 1 / 2 then f
         else if 1 / 2 < d then f + 1
         else if even f then f else f + 1)"

definition py_round :: "real \<Rightarrow> nat \<Rightarrow> real" where
  "py_round x ndigits = of_int (round_half_even (x * 10 ^ ndigits)) / 10 ^ ndigits"

text \<open>The engine's \<^verbatim>\<open>clamp(value, floor, ceiling)\<close>.\<close>

definition clamp :: "real \<Rightarrow> real \<Rightarrow> real \<Rightarrow> real" where
  "clamp v floor_v ceiling_v = max (min v ceiling_v) floor_v"

section \<open>The constants of \<^verbatim>\<open>class Physics\<close>\<close>

text \<open>
  The methods read \<^verbatim>\<open>Physics.GRAVITY\<close>, \<^verbatim>\<open>Physics.PLANET_RADIUS\<close>, ... when they run.
  The class is modelled as a record that every method takes as its first argument;
  \<open>Physics\<close> is the record the repository ships (v2.py, lines 40 to 49).
\<close>

record physics =
  GRAVITY :: real
  PLANET_CENTER :: vec3
  PLANET_RADIUS :: real
  PLAYER_HEIGHT :: real
  PLAYER_RADIUS :: real
  JUMP_HEIGHT :: real
  MOVE_SPEED :: real
  AIR_CONTROL :: real
  FRICTION :: real

definition Physics :: physics where
  "Physics = \<lparr> GRAVITY = 25, PLANET_CENTER = Vec3 0 0 0, PLANET_RADIUS = 32,
       PLAYER_HEIGHT = 2, PLAYER_RADIUS = 1 / 2, JUMP_HEIGHT = 5, MOVE_SPEED = 7,
       AIR_CONTROL = 8 / 10, FRICTION = 9 / 10 \<rparr>"

section \<open>\<^verbatim>\<open>SphericalPlayer\<close> of v2.py\<close>

text \<open>
  The fields of the instance that the controller reads or writes.  \<open>position\<close> and
  \<open>rotation\<close> are the entity's transform, \<open>model\<close> is \<^verbatim>\<open>self.model\<close> (\<^verbatim>\<open>None\<close> for an
  entity built without a model), \<open>camera_pivot_rotation_x\<close> is
  \<^verbatim>\<open>self.camera_pivot.rotation_x\<close>.  The two cache fields \<^verbatim>\<open>_last_pos_tuple\<close> and
  \<^verbatim>\<open>_cached_normal\<close> start as \<^verbatim>\<open>None\<close> and are only ever written together (lines 85
  and 86), so they are one optional pair here.  Scene graph, camera parenting and the
  mouse lock belong to the engine and are not part of the state.
\<close>

type_synonym pos_tuple = "real \<times> real \<times> real"

record player =
  position :: vec3
  rotation :: vec3
  model :: "string option"
  speed :: real
  jump_height :: real
  height :: real
  velocity :: vec3
  grounded :: bool
  start_pos :: vec3
  camera_pivot_rotation_x :: real
  mouse_sensitivity :: "real \<times> real"
  cache :: "(pos_tuple \<times> vec3) option"

text \<open>
  Exceptions.  A method that raises returns \<open>Inl\<close> with the exception and the instance as
  the raise leaves it; a method that returns gives \<open>Inr\<close>.  Three statements of the
  repository raise on every call that reaches them, because of what the engine's
  classes offer: \<^verbatim>\<open>Vec3\<close> has no method \<^verbatim>\<open>copy\<close> (v2.py lines 61 and 159; v3.0.py lines 60
  and 144 carry the repair and say so), an entity without a model has \<^verbatim>\<open>self.model\<close> equal
  to \<^verbatim>\<open>None\<close> (v2.py line 102), and \<^verbatim>\<open>Entity.up\<close> is a property without a setter
  (b33134k6.6.25.py line 163).  A fourth is decided by the text alone: b33132.0.py uses
  \<^verbatim>\<open>Vec2\<close> without importing it.
\<close>

datatype error = AttributeError string | NameError string

type_synonym 'a result = "(error \<times> 'a) + 'a"

definition instance_of :: "'a result \<Rightarrow> 'a" where
  "instance_of r = (case r of Inl (e, s) \<Rightarrow> s | Inr s \<Rightarrow> s)"

text \<open>\<^verbatim>\<open>__init__\<close> (lines 52 to 79).  Line 61, \<^verbatim>\<open>self.start_pos = self.position.copy()\<close>,
  raises for every position and whatever the constants are, so no instance is
  returned.\<close>

definition init :: "physics \<Rightarrow> vec3 \<Rightarrow> error + player" where
  "init ph pos = Inl (AttributeError ''copy'')"

text \<open>\<^verbatim>\<open>get_surface_normal\<close> (lines 81 to 87): returns the normal and the instance with
  its cache as the call leaves it.  \<open>pos_key\<close> is the tuple of line 83.\<close>

definition pos_key :: "vec3 \<Rightarrow> pos_tuple" where
  "pos_key pos = (py_round (vx pos) 1, py_round (vy pos) 1, py_round (vz pos) 1)"

definition get_surface_normal :: "physics \<Rightarrow> player \<Rightarrow> vec3 \<Rightarrow> vec3 \<times> player" where
  "get_surface_normal ph s pos =
     (let pos_tuple = pos_key pos
      in case cache s of
           Some (last_pos_tuple, cached_normal) \<Rightarrow>
             if pos_tuple \<noteq> last_pos_tuple
             then (normalized (vsub pos (PLANET_CENTER ph)),
                   s\<lparr>cache := Some (pos_tuple, normalized (vsub pos (PLANET_CENTER ph)))\<rparr>)
             else (cached_normal, s)
         | None \<Rightarrow>
             (normalized (vsub pos (PLANET_CENTER ph)),
              s\<lparr>cache := Some (pos_tuple, normalized (vsub pos (PLANET_CENTER ph)))\<rparr>))"

text \<open>\<^verbatim>\<open>jump\<close> (lines 152 to 156).\<close>

definition jump :: "physics \<Rightarrow> player \<Rightarrow> player" where
  "jump ph s =
     (if grounded s
      then (let (surface_normal, s1) = get_surface_normal ph s (position s)
            in s1\<lparr>velocity := vadd (velocity s1) (vmul surface_normal (jump_height s1)),
                  grounded := False\<rparr>)
      else s)"

text \<open>\<^verbatim>\<open>reset_position\<close> (lines 158 to 163).  Its first statement,
  \<^verbatim>\<open>self.position = self.start_pos.copy()\<close>, raises before anything is assigned.\<close>

definition reset_position :: "player \<Rightarrow> player result" where
  "reset_position s = Inl (AttributeError ''copy'', s)"

text \<open>
  What one call of \<^verbatim>\<open>update\<close> reads from the engine: \<^verbatim>\<open>time.dt\<close>, \<^verbatim>\<open>mouse.velocity\<close>,
  the dictionary \<^verbatim>\<open>held_keys\<close> (a key that is absent reads as 0), and the entity's
  \<^verbatim>\<open>forward\<close> and \<^verbatim>\<open>right\<close> axes as the engine derives them from the transform.
\<close>

record frame =
  dt :: real
  mouse_velocity :: "real \<times> real"
  held_keys :: "(string \<times> int) list"
  forward :: vec3
  right :: vec3

definition held :: "frame \<Rightarrow> string \<Rightarrow> int" where
  "held inp k = (case map_of (held_keys inp) k of None \<Rightarrow> 0 | Some v \<Rightarrow> v)"

text \<open>The locals of \<^verbatim>\<open>update\<close> that carry the movement input (lines 111 to 124):
  \<open>move_xz\<close> is the pair \<^verbatim>\<open>(move_x, move_z)\<close> as lines 112 to 119 leave it (divided by
  the length when a movement key is held), \<open>move_direction\<close> is line 121, and
  \<open>move_amount\<close> is lines 122 and 124.\<close>

definition move_xz :: "frame \<Rightarrow> real \<times> real" where
  "move_xz inp =
     (let move_x = held inp ''d'' - held inp ''a'';
          move_z = held inp ''w'' - held inp ''s''
      in if move_x \<noteq> 0 \<or> move_z \<noteq> 0
         then (let move_length = sqrt (of_int (move_x * move_x + move_z * move_z))
               in (of_int move_x / move_length, of_int move_z / move_length))
         else (of_int move_x, of_int move_z))"

definition move_direction :: "frame \<Rightarrow> vec3" where
  "move_direction inp =
     vadd (vmul (forward inp) (snd (move_xz inp))) (vmul (right inp) (fst (move_xz inp)))"

definition move_amount :: "physics \<Rightarrow> frame \<Rightarrow> player \<Rightarrow> vec3" where
  "move_amount ph inp s =
     (if held inp ''d'' - held inp ''a'' \<noteq> 0 \<or> held inp ''w'' - held inp ''s'' \<noteq> 0
      then vmul (vmul (move_direction inp) (speed s))
                (if \<not> grounded s then AIR_CONTROL ph else 1)
      else Vec3 0 0 0)"

text \<open>\<^verbatim>\<open>update\<close> (lines 89 to 150).  Line 91 queries the normal, which writes the cache.
  Lines 93 to 99 compute the locals \<^verbatim>\<open>world_forward\<close>, \<^verbatim>\<open>right\<close> and \<^verbatim>\<open>forward\<close>, which
  nothing reads afterwards.  Line 102, \<^verbatim>\<open>self.model.setMat(self.model.getMat())\<close>, raises
  when the entity has no model and otherwise stores the matrix it has read; the rest
  of the frame runs only with a model attached.\<close>

definition update :: "physics \<Rightarrow> frame \<Rightarrow> player \<Rightarrow> player result" where
  "update ph inp s =
     (let (surface_normal, s1) = get_surface_normal ph s (position s)
      in if model s1 = None then Inl (AttributeError ''setMat'', s1)
         else
          (let s2 = s1\<lparr>rotation := Vec3 (vx (rotation s1))
                     (vy (rotation s1)
                        + fst (mouse_velocity inp) * fst (mouse_sensitivity s1) * dt inp)
                     (vz (rotation s1))\<rparr>;
               s3 = s2\<lparr>camera_pivot_rotation_x :=
                     clamp (camera_pivot_rotation_x s2
                              - snd (mouse_velocity inp) * snd (mouse_sensitivity s2) * dt inp)
                           (- 90) 90\<rparr>;
               (move_x, move_z) = move_xz inp;
               move_amount = move_amount ph inp s3;
               gravity_force = vmul (vneg surface_normal) (GRAVITY ph);
               s4 = s3\<lparr>velocity := vadd (velocity s3) (vmul gravity_force (dt inp))\<rparr>;
               s5 = s4\<lparr>position :=
                     vadd (position s4) (vmul (vadd (velocity s4) move_amount) (dt inp))\<rparr>;
               distance_from_center = vlength (position s5);
               target_distance = PLANET_RADIUS ph + height s5 / 2
           in Inr (if distance_from_center \<le> target_distance
               then (let s6 = s5\<lparr>grounded := True\<rparr>;
                         s7 = s6\<lparr>position :=
                                vmul (normalized (position s6)) target_distance\<rparr>;
                         radial_velocity = dot (velocity s7) surface_normal;
                         s8 = (if radial_velocity < 0
                               then s7\<lparr>velocity :=
                                       vsub (velocity s7)
                                            (vmul surface_normal radial_velocity)\<rparr>
                               else s7)
                     in if move_x = 0 \<and> move_z = 0
                        then s8\<lparr>velocity := vmul (velocity s8) (FRICTION ph)\<rparr>
                        else s8)
               else s5\<lparr>grounded := False\<rparr>)))"

text \<open>The module level of v2.py: what the engine calls on the instance, \<^verbatim>\<open>update\<close> once a
  frame, \<^verbatim>\<open>jump\<close> on space and \<^verbatim>\<open>reset_position\<close> on r (lines 364 to 370).  An exception is
  not caught, so after a raise nothing more is called.\<close>

datatype event = Update frame | Jump | Reset

fun step :: "physics \<Rightarrow> player result \<Rightarrow> event \<Rightarrow> player result" where
  "step ph (Inl e) ev = Inl e"
| "step ph (Inr s) (Update inp) = update ph inp s"
| "step ph (Inr s) Jump = Inr (jump ph s)"
| "step ph (Inr s) Reset = reset_position s"

definition run :: "physics \<Rightarrow> event list \<Rightarrow> player \<Rightarrow> player result" where
  "run ph es s = foldl (step ph) (Inr s) es"

text \<open>Quantities of one frame, named for the statements below: the normal the frame
  works with, and velocity and position after integration, before the collision test.\<close>

definition frame_normal :: "physics \<Rightarrow> player \<Rightarrow> vec3" where
  "frame_normal ph s = fst (get_surface_normal ph s (position s))"

definition integrated_velocity :: "physics \<Rightarrow> frame \<Rightarrow> player \<Rightarrow> vec3" where
  "integrated_velocity ph inp s =
     vadd (velocity s) (vmul (vmul (vneg (frame_normal ph s)) (GRAVITY ph)) (dt inp))"

definition integrated_position :: "physics \<Rightarrow> frame \<Rightarrow> player \<Rightarrow> vec3" where
  "integrated_position ph inp s =
     vadd (position s)
          (vmul (vadd (integrated_velocity ph inp s) (move_amount ph inp s)) (dt inp))"

definition target_distance :: "physics \<Rightarrow> player \<Rightarrow> real" where
  "target_distance ph s = PLANET_RADIUS ph + height s / 2"

definition no_move_input :: "frame \<Rightarrow> bool" where
  "no_move_input inp \<longleftrightarrow>
     held inp ''d'' - held inp ''a'' = 0 \<and> held inp ''w'' - held inp ''s'' = 0"

text \<open>The part of a velocity across a normal; a normal as \<^verbatim>\<open>normalized()\<close> can return it,
  of length one or zero; a cache that holds such a normal; and the surface normal at a
  position, the normalised offset from the planet centre.\<close>

definition tangential :: "vec3 \<Rightarrow> vec3 \<Rightarrow> vec3" where
  "tangential v n = vsub v (vmul n (dot v n))"

definition unit_or_zero :: "vec3 \<Rightarrow> bool" where
  "unit_or_zero n \<longleftrightarrow> length_squared n = 1 \<or> n = vzero"

definition cache_ok :: "player \<Rightarrow> bool" where
  "cache_ok s \<longleftrightarrow> (case cache s of None \<Rightarrow> True | Some (k, n) \<Rightarrow> unit_or_zero n)"

definition normal_at :: "physics \<Rightarrow> vec3 \<Rightarrow> vec3" where
  "normal_at ph p = normalized (vsub p (PLANET_CENTER ph))"

text \<open>Lines 141 to 144: the velocity \<open>w\<close> with its part along \<open>n\<close> taken out when that
  part points inward.\<close>

definition cancel_radial :: "vec3 \<Rightarrow> vec3 \<Rightarrow> vec3" where
  "cancel_radial w n = (if dot w n < 0 then vsub w (vmul n (dot w n)) else w)"

text \<open>A run of frames each of which completes and ends on the ground.\<close>

fun all_grounded :: "physics \<Rightarrow> frame list \<Rightarrow> player \<Rightarrow> bool" where
  "all_grounded ph [] s = True"
| "all_grounded ph (inp # inps) s =
     (case update ph inp s of
        Inl e \<Rightarrow> False
      | Inr s' \<Rightarrow> grounded s' \<and> all_grounded ph inps s')"

section \<open>\<^verbatim>\<open>SphericalPlayer\<close> of v3.0.py: the constructor and \<^verbatim>\<open>reset_position\<close>\<close>

text \<open>The class has the fields of v2.py.  Its constructor (lines 51 to 75) and its
  \<^verbatim>\<open>reset_position\<close> (lines 143 to 148) are those of v2.py with \<^verbatim>\<open>Vec3(...)\<close> in the place
  of \<^verbatim>\<open>copy()\<close>; the \<^verbatim>\<open>print\<close> is not modelled.  The keyword arguments reach the engine's
  entity, which sets the transform; the repository passes \<^verbatim>\<open>position\<close> only, so no model
  is attached.  \<open>player0\<close> is the instance that line 330 constructs; line 354 of v2.py
  asks for the same.\<close>

definition init_v3 :: "physics \<Rightarrow> vec3 \<Rightarrow> error + player" where
  "init_v3 ph pos = Inr \<lparr> position = pos, rotation = Vec3 0 0 0, model = None,
       speed = MOVE_SPEED ph, jump_height = JUMP_HEIGHT ph, height = PLAYER_HEIGHT ph,
       velocity = Vec3 0 0 0, grounded = False, start_pos = pos,
       camera_pivot_rotation_x = 0, mouse_sensitivity = (100, 100),
       cache = None \<rparr>"

definition reset_position_v3 :: "player \<Rightarrow> player" where
  "reset_position_v3 s =
     s\<lparr>position := start_pos s, velocity := Vec3 0 0 0, rotation := Vec3 0 0 0,
       camera_pivot_rotation_x := 0\<rparr>"

definition player0 :: player where
  "player0 = projr (init_v3 Physics
                (Vec3 0 (PLANET_RADIUS Physics + PLAYER_HEIGHT Physics) 0))"

section \<open>\<^verbatim>\<open>SphericalPlayer\<close> of b33132.0.py\<close>

text \<open>The same fields; the normal is not cached (lines 74 to 75).  The module imports
  \<^verbatim>\<open>Vec3\<close> and not \<^verbatim>\<open>Vec2\<close> (line 1), so line 68 of \<^verbatim>\<open>__init__\<close>,
  \<^verbatim>\<open>self.mouse_sensitivity = Vec2(100, 100)\<close>, raises \<^verbatim>\<open>NameError\<close>: the constructor never
  returns an instance.\<close>

definition get_surface_normal_b0 :: "physics \<Rightarrow> vec3 \<Rightarrow> vec3" where
  "get_surface_normal_b0 ph pos = normalized (vsub pos (PLANET_CENTER ph))"

definition init_b0 :: "physics \<Rightarrow> vec3 \<Rightarrow> error + player" where
  "init_b0 ph pos = Inl (NameError ''Vec2'')"

section \<open>\<^verbatim>\<open>SphericalPlayer\<close> of buildv06.6.25.py: the normal query and \<^verbatim>\<open>jump\<close>\<close>

text \<open>Lines 86 to 95: \<^verbatim>\<open>update\<close> rounds the position to two decimals and passes the
  tuple to a method memoised by \<^verbatim>\<open>lru_cache\<close> on that tuple; the method computes the
  normal of the rounded position.  A memo keyed by the whole argument returns what the
  method computes.\<close>

definition get_surface_normal_v06 :: "physics \<Rightarrow> pos_tuple \<Rightarrow> vec3" where
  "get_surface_normal_v06 ph pos_tuple =
     (let pos = Vec3 (fst pos_tuple) (fst (snd pos_tuple)) (snd (snd pos_tuple))
      in normalized (vsub pos (PLANET_CENTER ph)))"

definition surface_normal_v06 :: "physics \<Rightarrow> vec3 \<Rightarrow> vec3" where
  "surface_normal_v06 ph pos =
     get_surface_normal_v06 ph
       (py_round (vx pos) 2, py_round (vy pos) 2, py_round (vz pos) 2)"

text \<open>\<^verbatim>\<open>jump\<close> of buildv06.6.25.py (lines 143 to 146) pushes along \<^verbatim>\<open>self.up\<close>, the up axis
  that the engine derives from the entity's orientation; it is an argument here.\<close>

definition jump_v06 :: "vec3 \<Rightarrow> player \<Rightarrow> player" where
  "jump_v06 up s =
     (if grounded s
      then s\<lparr>velocity := vadd (velocity s) (vmul up (jump_height s)), grounded := False\<rparr>
      else s)"

section \<open>\<^verbatim>\<open>SphericalController\<close> of b33134k6.6.25.py\<close>

text \<open>The module constants (lines 47 to 53) are read when the methods run; they are a
  record that the constructor takes, and \<open>Module_k6\<close> is the record the file ships.  The
  instance fields are those of lines 145 to 159.  \<open>up_k6\<close> is \<^verbatim>\<open>self.up\<close>, the up axis that
  the engine derives from the entity's orientation.\<close>

record module_k6 =
  GRAVITY_k6 :: real
  PLANET_CENTER_k6 :: vec3
  SURFACE_R_k6 :: real
  PLAYER_HEIGHT_k6 :: real
  PLAYER_SPEED_k6 :: real
  AIR_CONTROL_k6 :: real
  FRICTION_k6 :: real

definition Module_k6 :: module_k6 where
  "Module_k6 = \<lparr> GRAVITY_k6 = 25, PLANET_CENTER_k6 = Vec3 0 0 0, SURFACE_R_k6 = 32,
       PLAYER_HEIGHT_k6 = 2, PLAYER_SPEED_k6 = 7, AIR_CONTROL_k6 = 1 / 2,
       FRICTION_k6 = 9 / 10 \<rparr>"

record controller =
  position_k6 :: vec3
  rotation_y_k6 :: real
  up_k6 :: vec3
  height_k6 :: real
  camera_pivot_rotation_x_k6 :: real
  velocity_k6 :: vec3
  grounded_k6 :: bool
  jump_height_k6 :: real
  speed_k6 :: real
  mouse_sensitivity_k6 :: "real \<times> real"

text \<open>\<^verbatim>\<open>__init__\<close> (lines 145 to 159); position and orientation are the engine's defaults,
  the module then sets the position (line 222).  It has no \<^verbatim>\<open>raise\<close> and no check of any
  constant.\<close>

definition init_k6 :: "module_k6 \<Rightarrow> vec3 \<Rightarrow> error + controller" where
  "init_k6 m pos = Inr \<lparr> position_k6 = pos, rotation_y_k6 = 0, up_k6 = Vec3 0 1 0,
       height_k6 = PLAYER_HEIGHT_k6 m, camera_pivot_rotation_x_k6 = 0,
       velocity_k6 = Vec3 0 0 0, grounded_k6 = True, jump_height_k6 = 8,
       speed_k6 = PLAYER_SPEED_k6 m, mouse_sensitivity_k6 = (40, 40) \<rparr>"

text \<open>\<^verbatim>\<open>update\<close> (lines 161 to 209).  Its first statement, line 163, assigns to \<^verbatim>\<open>self.up\<close>
  and raises; nothing of the frame is executed, on any input.\<close>

definition update_k6 :: "frame \<Rightarrow> controller \<Rightarrow> controller result" where
  "update_k6 inp s = Inl (AttributeError ''up'', s)"

text \<open>\<^verbatim>\<open>jump\<close> (lines 215 to 218).\<close>

definition jump_k6 :: "controller \<Rightarrow> controller" where
  "jump_k6 s =
     (if grounded_k6 s
      then s\<lparr>velocity_k6 := vadd (velocity_k6 s) (vmul (up_k6 s) (jump_height_k6 s)),
             grounded_k6 := False\<rparr>
      else s)"

section \<open>Predicates for the statements, concrete frames and states\<close>

text \<open>A frame with no key held and the mouse at rest; the instance of the module, the
  same with a model attached (as \<^verbatim>\<open>model='cube'\<close> among the keyword arguments gives it),
  that one falling at 9 units a second, the instance standing on the surface, and
  grounded at the planet centre; and the test of line 84, whether a query at a position
  misses the cache.\<close>

definition idle_frame :: "real \<Rightarrow> frame" where
  "idle_frame d = \<lparr> dt = d, mouse_velocity = (0, 0), held_keys = [],
       forward = Vec3 0 0 1, right = Vec3 1 0 0 \<rparr>"

definition cube_player :: player where
  "cube_player = player0\<lparr>model := Some ''cube''\<rparr>"

definition falling_player :: player where
  "falling_player = cube_player\<lparr>velocity := Vec3 0 (- 9) 0\<rparr>"

definition standing_player :: player where
  "standing_player = player0\<lparr>position := Vec3 0 33 0, grounded := True\<rparr>"

definition center_player :: player where
  "center_player = player0\<lparr>position := Vec3 0 0 0, grounded := True\<rparr>"

definition cache_miss :: "player \<Rightarrow> vec3 \<Rightarrow> bool" where
  "cache_miss s pos \<longleftrightarrow> (case cache s of None \<Rightarrow> True | Some (k, n) \<Rightarrow> k \<noteq> pos_key pos)"

text \<open>The cache as the calls of a run leave it: the stored normal is the exact normal of
  a position that has the stored key.\<close>

definition cache_exact :: "physics \<Rightarrow> player \<Rightarrow> bool" where
  "cache_exact ph s \<longleftrightarrow>
     (case cache s of None \<Rightarrow> True
      | Some (k, n) \<Rightarrow> \<exists>q. pos_key q = k \<and> n = normalized (vsub q (PLANET_CENTER ph)))"

text \<open>The instance after the first normal query of its first frame, and constants with a
  zero radius and a negative height, for \<^verbatim>\<open>class Physics\<close> and for the module of
  b33134k6.6.25.py.\<close>

definition warm_player :: player where
  "warm_player = snd (get_surface_normal Physics player0 (position player0))"

definition invalid_physics :: physics where
  "invalid_physics = Physics\<lparr>PLANET_RADIUS := 0, PLAYER_HEIGHT := - 2\<rparr>"

definition invalid_module_k6 :: module_k6 where
  "invalid_module_k6 = Module_k6\<lparr>SURFACE_R_k6 := 0, PLAYER_HEIGHT_k6 := - 2\<rparr>"

text \<open>Frames with the forward key held and with the left key held, a player with a model
  sliding on the surface, and the controller of b33134k6.6.25.py, placed as line 222
  places it, sliding on the surface.\<close>

definition walk_frame :: "real \<Rightarrow> frame" where
  "walk_frame d = \<lparr> dt = d, mouse_velocity = (0, 0), held_keys = [(''w'', 1)],
       forward = Vec3 0 0 1, right = Vec3 1 0 0 \<rparr>"

definition strafe_frame :: "real \<Rightarrow> frame" where
  "strafe_frame d = \<lparr> dt = d, mouse_velocity = (0, 0), held_keys = [(''a'', 1)],
       forward = Vec3 0 0 1, right = Vec3 1 0 0 \<rparr>"

definition sliding_player :: player where
  "sliding_player = standing_player\<lparr>velocity := Vec3 1 0 0, model := Some ''cube''\<rparr>"

definition sliding_controller :: controller where
  "sliding_controller =
     projr (init_k6 Module_k6 (Vec3 0 (SURFACE_R_k6 Module_k6) 0))\<lparr>velocity_k6 := Vec3 1 0 0\<rparr>"

section \<open>Vector algebra and the shape of one frame\<close>

subsection \<open>Lengths, normalisation and dot products\<close>

lemma length_squared_nonneg: "0 \<le> length_squared a"
  by (simp add: length_squared_def)

lemma length_squared_zero_iff: "length_squared a = 0 \<longleftrightarrow> a = vzero"
  by (cases a) (auto simp: length_squared_def vzero_def add_nonneg_eq_0_iff)

lemma vlength_nonneg: "0 \<le> vlength a"
  by (simp add: vlength_def length_squared_nonneg)

lemma vlength_zero_iff: "vlength a = 0 \<longleftrightarrow> a = vzero"
  by (simp add: vlength_def length_squared_zero_iff)

lemma length_squared_vmul: "length_squared (vmul a c) = c * c * length_squared a"
  by (simp add: length_squared_def vmul_def algebra_simps)

lemma vlength_vmul: "vlength (vmul a c) = \<bar>c\<bar> * vlength a"
  by (simp add: vlength_def length_squared_vmul real_sqrt_mult)

lemma normalized_vzero: "normalized vzero = vzero"
  by (simp add: normalized_def length_squared_def vzero_def)

lemma vlength_normalized: "a \<noteq> vzero \<Longrightarrow> vlength (normalized a) = 1"
  using vlength_nonneg [of a]
  by (simp add: normalized_def length_squared_zero_iff vlength_vmul vlength_zero_iff)

lemma length_squared_vlength: "length_squared a = vlength a * vlength a"
  by (simp add: vlength_def length_squared_nonneg)

lemma unit_or_zero_normalized: "unit_or_zero (normalized a)"
proof (cases "a = vzero")
  case True
  then show ?thesis by (simp add: unit_or_zero_def normalized_vzero)
next
  case False
  then have "vlength (normalized a) = 1" by (rule vlength_normalized)
  then show ?thesis by (simp add: unit_or_zero_def length_squared_vlength)
qed

lemma dot_vsub_vmul: "dot (vsub v (vmul n r)) n = dot v n - r * length_squared n"
  by (simp add: dot_def vsub_def vmul_def length_squared_def algebra_simps)

lemma dot_vmul_left: "dot (vmul v c) n = c * dot v n"
  by (simp add: dot_def vmul_def algebra_simps)

lemma dot_vzero_right: "dot v vzero = 0"
  by (simp add: dot_def vzero_def)

lemma instance_of_simps:
  "instance_of (Inr s) = s" "instance_of (Inl (e, s)) = s"
  by (simp_all add: instance_of_def)

subsection \<open>One frame of v2.py in closed form\<close>

lemma gsn_fields:
  "position (snd (get_surface_normal ph s p)) = position s"
  "rotation (snd (get_surface_normal ph s p)) = rotation s"
  "model (snd (get_surface_normal ph s p)) = model s"
  "speed (snd (get_surface_normal ph s p)) = speed s"
  "jump_height (snd (get_surface_normal ph s p)) = jump_height s"
  "height (snd (get_surface_normal ph s p)) = height s"
  "velocity (snd (get_surface_normal ph s p)) = velocity s"
  "grounded (snd (get_surface_normal ph s p)) = grounded s"
  "start_pos (snd (get_surface_normal ph s p)) = start_pos s"
  "camera_pivot_rotation_x (snd (get_surface_normal ph s p)) = camera_pivot_rotation_x s"
  "mouse_sensitivity (snd (get_surface_normal ph s p)) = mouse_sensitivity s"
  by (simp_all add: get_surface_normal_def Let_def split: option.splits prod.splits)

text \<open>A frame completes exactly when a model is attached; without one it stops at
  line 102, after the normal query has written the cache.\<close>

lemma update_raises:
  "model s = None \<Longrightarrow>
     update ph inp s
       = Inl (AttributeError ''setMat'', snd (get_surface_normal ph s (position s)))"
  by (simp add: update_def case_prod_beta gsn_fields)

lemma update_completes: "model s \<noteq> None \<Longrightarrow> update ph inp s = Inr (projr (update ph inp s))"
  by (cases "model s"; simp add: update_def Let_def case_prod_beta gsn_fields)

lemma update_Inr_model: "update ph inp s = Inr s' \<Longrightarrow> model s \<noteq> None"
  using update_raises [of s ph inp] by auto

lemma move_amount_oriented:
  "move_amount ph inp (snd (get_surface_normal ph s p)\<lparr>rotation := r, camera_pivot_rotation_x := c\<rparr>)
     = move_amount ph inp s"
  by (simp add: move_amount_def gsn_fields Let_def)

lemma update_grounded_iff:
  "model s \<noteq> None \<Longrightarrow>
     grounded (projr (update ph inp s))
       \<longleftrightarrow> vlength (integrated_position ph inp s) \<le> target_distance ph s"
  by (cases "model s"; simp add: update_def Let_def case_prod_beta gsn_fields integrated_position_def
      integrated_velocity_def frame_normal_def target_distance_def
      move_amount_oriented)

lemma update_position:
  "model s \<noteq> None \<Longrightarrow>
   position (projr (update ph inp s)) =
     (if vlength (integrated_position ph inp s) \<le> target_distance ph s
      then vmul (normalized (integrated_position ph inp s)) (target_distance ph s)
      else integrated_position ph inp s)"
  by (cases "model s"; simp add: update_def Let_def case_prod_beta gsn_fields integrated_position_def
      integrated_velocity_def frame_normal_def target_distance_def
      move_amount_oriented)

lemma move_xz_zero_iff:
  "fst (move_xz inp) = 0 \<and> snd (move_xz inp) = 0 \<longleftrightarrow> no_move_input inp"
proof -
  let ?x = "held inp ''d'' - held inp ''a''" and ?z = "held inp ''w'' - held inp ''s''"
  have "0 < sqrt (real_of_int (?x * ?x + ?z * ?z))" if "?x \<noteq> 0 \<or> ?z \<noteq> 0"
  proof -
    have "0 < ?x * ?x + ?z * ?z" using that
      by (metis add_pos_nonneg add_nonneg_pos zero_le_square zero_less_mult_iff linorder_neqE_linordered_idom mult_neg_neg)
    then show ?thesis by (simp only: real_sqrt_gt_0_iff of_int_0_less_iff)
  qed
  then show ?thesis
    by (auto simp: move_xz_def no_move_input_def Let_def)
qed

lemma update_velocity:
  "model s \<noteq> None \<Longrightarrow>
   velocity (projr (update ph inp s)) =
     (if vlength (integrated_position ph inp s) \<le> target_distance ph s
      then (if no_move_input inp
            then vmul (cancel_radial (integrated_velocity ph inp s) (frame_normal ph s)) (FRICTION ph)
            else cancel_radial (integrated_velocity ph inp s) (frame_normal ph s))
      else integrated_velocity ph inp s)"
  by (cases "model s"; simp add: update_def Let_def case_prod_beta gsn_fields integrated_position_def
      integrated_velocity_def frame_normal_def target_distance_def move_xz_zero_iff
      cancel_radial_def move_amount_oriented)

lemma update_height: "model s \<noteq> None \<Longrightarrow> height (projr (update ph inp s)) = height s"
  by (cases "model s"; simp add: update_def Let_def case_prod_beta gsn_fields)

lemma frame_normal_unit_or_zero: "cache_ok s \<Longrightarrow> unit_or_zero (frame_normal ph s)"
  by (auto simp: frame_normal_def get_surface_normal_def cache_ok_def Let_def
      unit_or_zero_normalized split: option.splits)

lemma dot_cancel_radial_nonneg: "unit_or_zero n \<Longrightarrow> 0 \<le> dot (cancel_radial w n) n"
  by (auto simp: cancel_radial_def unit_or_zero_def dot_vsub_vmul dot_vzero_right)

lemma tangential_cancel_radial:
  assumes "unit_or_zero n"
  shows "tangential (cancel_radial w n) n = tangential w n"
proof (cases "dot w n < 0")
  case True
  then have "n \<noteq> vzero" by (auto simp: dot_vzero_right)
  with assms have "length_squared n = 1" by (simp add: unit_or_zero_def)
  then have "dot (vsub w (vmul n (dot w n))) n = 0" by (simp add: dot_vsub_vmul)
  with True show ?thesis
    by (simp add: cancel_radial_def tangential_def) (simp add: vsub_def vmul_def)
next
  case False
  then show ?thesis by (simp add: cancel_radial_def)
qed

lemma vlength_snap: "a \<noteq> vzero \<Longrightarrow> 0 \<le> t \<Longrightarrow> vlength (vmul (normalized a) t) = t"
  by (simp add: vlength_vmul vlength_normalized)

lemma vsub_origin: "vsub p (Vec3 0 0 0) = p"
  by (simp add: vsub_def)

lemma Physics_simps:
  "GRAVITY Physics = 25" "PLANET_CENTER Physics = Vec3 0 0 0" "PLANET_RADIUS Physics = 32"
  "PLAYER_HEIGHT Physics = 2" "JUMP_HEIGHT Physics = 5" "MOVE_SPEED Physics = 7"
  "AIR_CONTROL Physics = 8 / 10" "FRICTION Physics = 9 / 10"
  by (simp_all add: Physics_def)

subsection \<open>Values at the concrete states\<close>

lemma vlength_axis_y: "vlength (Vec3 0 y 0) = \<bar>y\<bar>"
  by (simp add: vlength_def length_squared_def)

lemma normalized_axis_y: "0 < y \<Longrightarrow> normalized (Vec3 0 y 0) = Vec3 0 1 0"
  by (simp add: normalized_def vlength_axis_y vmul_def length_squared_def)

lemma frame_normal_player0: "frame_normal Physics player0 = Vec3 0 1 0"
  by (simp add: frame_normal_def get_surface_normal_def player0_def init_v3_def Physics_simps
      vsub_origin normalized_axis_y)

lemma frame_normal_cube: "frame_normal Physics cube_player = Vec3 0 1 0"
  by (simp add: frame_normal_def get_surface_normal_def player0_def init_v3_def Physics_simps
      vsub_origin normalized_axis_y cube_player_def)

lemma frame_normal_falling: "frame_normal Physics falling_player = Vec3 0 1 0"
  by (simp add: frame_normal_def get_surface_normal_def player0_def init_v3_def Physics_simps
      vsub_origin normalized_axis_y falling_player_def cube_player_def)

lemma model_concrete:
  "model cube_player \<noteq> None" "model falling_player \<noteq> None" "model sliding_player \<noteq> None"
  "model player0 = None"
  by (simp_all add: cube_player_def falling_player_def sliding_player_def player0_def
      init_v3_def)

lemma no_move_input_idle: "no_move_input (idle_frame d)"
  by (simp add: no_move_input_def idle_frame_def held_def)

lemma move_amount_idle: "move_amount ph (idle_frame d) s = Vec3 0 0 0"
  by (simp add: move_amount_def idle_frame_def held_def)

lemma integrated_position_cube:
  "integrated_position Physics (idle_frame 1) cube_player = Vec3 0 9 0"
  by (simp add: integrated_position_def integrated_velocity_def frame_normal_cube
      move_amount_idle Physics_simps vadd_def vmul_def vneg_def)
     (simp add: player0_def init_v3_def idle_frame_def Physics_simps cube_player_def)

lemma integrated_position_falling:
  "integrated_position Physics (idle_frame 1) falling_player = Vec3 0 0 0"
  by (simp add: integrated_position_def integrated_velocity_def frame_normal_falling
      move_amount_idle Physics_simps vadd_def vmul_def vneg_def)
     (simp add: player0_def init_v3_def idle_frame_def Physics_simps falling_player_def
        cube_player_def)

subsection \<open>The normal cache\<close>

lemma get_surface_normal_miss:
  "cache_miss s p \<Longrightarrow>
     get_surface_normal ph s p
       = (normalized (vsub p (PLANET_CENTER ph)),
          s\<lparr>cache := Some (pos_key p, normalized (vsub p (PLANET_CENTER ph)))\<rparr>)"
  by (auto simp: get_surface_normal_def cache_miss_def Let_def split: option.splits)

lemma get_surface_normal_hit:
  "cache s = Some (pos_key p, n) \<Longrightarrow> get_surface_normal ph s p = (n, s)"
  by (simp add: get_surface_normal_def)

lemma integrated_position_cube_60:
  "integrated_position Physics (idle_frame (1 / 60)) cube_player = Vec3 0 (34 - 25 / 3600) 0"
  by (simp add: integrated_position_def integrated_velocity_def frame_normal_cube
      move_amount_idle Physics_simps vadd_def vmul_def vneg_def)
     (simp add: player0_def init_v3_def idle_frame_def Physics_simps cube_player_def)

lemma target_distance_cube: "target_distance Physics cube_player = 33"
  by (simp add: target_distance_def player0_def init_v3_def Physics_simps cube_player_def)

lemma target_distance_falling: "target_distance Physics falling_player = 33"
  by (simp add: target_distance_def player0_def init_v3_def Physics_simps cube_player_def
      falling_player_def)

lemma jump_grounded:
  "grounded s \<Longrightarrow>
     jump ph s = (snd (get_surface_normal ph s (position s)))
        \<lparr>velocity := vadd (velocity s) (vmul (frame_normal ph s) (jump_height s)),
         grounded := False\<rparr>"
  by (simp add: jump_def case_prod_beta frame_normal_def gsn_fields)

lemma dot_vadd_vmul: "dot (vadd v (vmul n c)) n = dot v n + c * length_squared n"
  by (simp add: dot_def vadd_def vmul_def length_squared_def algebra_simps)

lemma frame_normal_standing: "frame_normal Physics standing_player = Vec3 0 1 0"
  by (simp add: frame_normal_def get_surface_normal_def player0_def init_v3_def Physics_simps
      vsub_origin normalized_axis_y standing_player_def)

lemma pos_key_evals:
  "pos_key (Vec3 0 34 0) = (0, 34, 0)" "pos_key (Vec3 (1 / 25) 34 0) = (0, 34, 0)"
  by (simp_all add: pos_key_def py_round_def round_half_even_def)

lemma get_surface_normal_exact:
  assumes "cache_exact ph s"
  shows "\<exists>q. pos_key q = pos_key p
            \<and> fst (get_surface_normal ph s p) = normalized (vsub q (PLANET_CENTER ph))"
    and "cache_exact ph (snd (get_surface_normal ph s p))"
  using assms
  by (auto simp: get_surface_normal_def cache_exact_def Let_def split: option.splits)

lemma update_cache:
  "cache (instance_of (update ph inp s)) = cache (snd (get_surface_normal ph s (position s)))"
  by (simp add: update_def Let_def case_prod_beta instance_of_def)

lemma cache_exact_cong: "cache s' = cache s \<Longrightarrow> cache_exact ph s' = cache_exact ph s"
  by (simp add: cache_exact_def)

lemma cache_exact_step:
  assumes "cache_exact ph (instance_of r)"
  shows "cache_exact ph (instance_of (step ph r e))"
proof (cases r)
  case (Inl a)
  then show ?thesis using assms by simp
next
  case (Inr s)
  with assms have a: "cache_exact ph s" by (simp add: instance_of_simps)
  then have g: "cache_exact ph (snd (get_surface_normal ph s (position s)))"
    by (rule get_surface_normal_exact(2))
  show ?thesis
  proof (cases e)
    case (Update inp)
    then show ?thesis
      using Inr g cache_exact_cong [OF update_cache] by simp
  next
    case Jump
    then show ?thesis
      using Inr a g by (simp add: jump_def case_prod_beta cache_exact_def instance_of_simps)
  next
    case Reset
    then show ?thesis using Inr a by (simp add: reset_position_def instance_of_simps)
  qed
qed

lemma cache_exact_foldl:
  "cache_exact ph (instance_of r) \<Longrightarrow> cache_exact ph (instance_of (foldl (step ph) r es))"
  by (induction es arbitrary: r) (simp_all add: cache_exact_step)

lemma cache_exact_run: "cache_exact ph s \<Longrightarrow> cache_exact ph (instance_of (run ph es s))"
  unfolding run_def by (rule cache_exact_foldl) (simp add: instance_of_simps)

lemma cache_exact_empty: "cache s = None \<Longrightarrow> cache_exact ph s"
  by (simp add: cache_exact_def)

lemma warm_player_cache: "cache warm_player = Some (pos_key (Vec3 (1 / 25) 34 0), Vec3 0 1 0)"
  by (simp add: warm_player_def get_surface_normal_def player0_def init_v3_def Physics_simps
      vsub_origin normalized_axis_y pos_key_evals)

lemma vx_normalized_nonzero: "vx a \<noteq> 0 \<Longrightarrow> vx (normalized a) \<noteq> 0"
proof -
  assume a: "vx a \<noteq> 0"
  then have "a \<noteq> vzero" by (auto simp: vzero_def)
  then have "length_squared a \<noteq> 0" "vlength a \<noteq> 0"
    by (simp_all add: length_squared_zero_iff vlength_zero_iff)
  with a show ?thesis by (simp add: normalized_def vmul_def)
qed

lemma vx_normalized_neg: "vx a < 0 \<Longrightarrow> vx (normalized a) < 0"
proof -
  assume a: "vx a < 0"
  then have "a \<noteq> vzero" by (auto simp: vzero_def)
  then have l: "length_squared a \<noteq> 0" and "vlength a \<noteq> 0"
    by (simp_all add: length_squared_zero_iff vlength_zero_iff)
  then have "0 < vlength a" using vlength_nonneg [of a] by simp
  with a l show ?thesis by (simp add: normalized_def vmul_def divide_neg_pos)
qed

lemma py_round_evals:
  "py_round 0 2 = 0" "py_round 34 2 = 34" "py_round (1 / 250) 2 = 0"
  by (simp_all add: py_round_def round_half_even_def)

subsection \<open>Frames in the air\<close>

lemma vlength_le_iff: "0 \<le> t \<Longrightarrow> vlength a \<le> t \<longleftrightarrow> length_squared a \<le> t * t"
proof -
  assume t: "0 \<le> t"
  then have "sqrt (t * t) = t" by simp
  then have "vlength a \<le> t \<longleftrightarrow> sqrt (length_squared a) \<le> sqrt (t * t)"
    by (simp add: vlength_def)
  then show ?thesis by (simp only: real_sqrt_le_iff)
qed

lemma update_airborne:
  assumes "model s \<noteq> None"
    and "target_distance ph s < vlength (integrated_position ph inp s)"
  shows "velocity (projr (update ph inp s)) = integrated_velocity ph inp s"
    and "position (projr (update ph inp s)) = integrated_position ph inp s"
    and "\<not> grounded (projr (update ph inp s))"
  using assms by (simp_all add: update_velocity update_position update_grounded_iff)

lemma move_amount_moving:
  "\<not> no_move_input inp \<Longrightarrow>
     move_amount ph inp s
       = vmul (vmul (move_direction inp) (speed s)) (if \<not> grounded s then AIR_CONTROL ph else 1)"
  by (auto simp: move_amount_def no_move_input_def)

lemma move_amount_air_scaled:
  "move_amount ph inp (s\<lparr>grounded := False\<rparr>)
     = vmul (move_amount ph inp (s\<lparr>grounded := True\<rparr>)) (AIR_CONTROL ph)"
  by (simp add: move_amount_def vmul_def)

lemma move_amount_air_weaker:
  assumes "move_amount Physics inp (s\<lparr>grounded := True\<rparr>) \<noteq> vzero"
  shows "vlength (move_amount Physics inp (s\<lparr>grounded := False\<rparr>))
           < vlength (move_amount Physics inp (s\<lparr>grounded := True\<rparr>))"
proof -
  let ?g = "move_amount Physics inp (s\<lparr>grounded := True\<rparr>)"
  have "0 < vlength ?g"
    using assms vlength_nonneg [of ?g] vlength_zero_iff [of ?g] by simp
  then show ?thesis
    by (simp add: move_amount_air_scaled [of Physics inp s] vlength_vmul Physics_simps)
qed

lemma held_walk:
  "held (walk_frame d) ''w'' = 1" "held (walk_frame d) ''s'' = 0"
  "held (walk_frame d) ''a'' = 0" "held (walk_frame d) ''d'' = 0"
  by (simp_all add: held_def walk_frame_def)

lemma no_move_input_walk: "\<not> no_move_input (walk_frame d)"
  by (simp add: no_move_input_def held_walk)

lemma move_direction_walk: "move_direction (walk_frame d) = Vec3 0 0 1"
  by (simp add: move_direction_def move_xz_def held_walk vadd_def vmul_def)
     (simp add: walk_frame_def)

lemma held_strafe:
  "held (strafe_frame d) ''w'' = 0" "held (strafe_frame d) ''s'' = 0"
  "held (strafe_frame d) ''a'' = 1" "held (strafe_frame d) ''d'' = 0"
  by (simp_all add: held_def strafe_frame_def)

lemma no_move_input_strafe: "\<not> no_move_input (strafe_frame d)"
  by (simp add: no_move_input_def held_strafe)

lemma move_direction_strafe: "move_direction (strafe_frame d) = Vec3 (- 1) 0 0"
  by (simp add: move_direction_def move_xz_def held_strafe vadd_def vmul_def)
     (simp add: strafe_frame_def)

lemma integrated_velocity_cube:
  "integrated_velocity Physics inp cube_player = Vec3 0 (- (25 * dt inp)) 0"
  by (simp add: integrated_velocity_def frame_normal_cube Physics_simps vadd_def vmul_def
      vneg_def)
     (simp add: player0_def init_v3_def cube_player_def)

lemma integrated_position_cube_walk:
  "integrated_position Physics (walk_frame (1 / 60)) cube_player
     = Vec3 0 (34 - 25 / 3600) (7 * (8 / 10) / 60)"
  by (simp add: integrated_position_def integrated_velocity_cube move_amount_moving
      no_move_input_walk move_direction_walk Physics_simps vadd_def vmul_def)
     (simp add: player0_def init_v3_def walk_frame_def Physics_simps cube_player_def)

lemma airborne_cube_walk:
  "target_distance Physics cube_player
     < vlength (integrated_position Physics (walk_frame (1 / 60)) cube_player)"
  unfolding integrated_position_cube_walk target_distance_cube
  by (simp add: not_le [symmetric] vlength_le_iff length_squared_def)

lemma airborne_cube_idle:
  "target_distance Physics cube_player
     < vlength (integrated_position Physics (idle_frame (1 / 60)) cube_player)"
  unfolding integrated_position_cube_60 target_distance_cube
  by (simp add: not_le [symmetric] vlength_le_iff length_squared_def)

subsection \<open>Friction and the decay of the speed\<close>

lemma length_squared_vsub_vmul:
  "length_squared (vsub w (vmul n r)) = length_squared w - 2 * r * dot w n + r * r * length_squared n"
  by (simp add: length_squared_def vsub_def vmul_def dot_def algebra_simps)

lemma length_squared_gravity:
  "length_squared (vadd v (vmul (vneg n) c))
     = length_squared v - 2 * c * dot v n + c * c * length_squared n"
  by (simp add: length_squared_def vadd_def vmul_def vneg_def dot_def algebra_simps)

lemma dot_gravity: "dot (vadd v (vmul (vneg n) c)) n = dot v n - c * length_squared n"
  by (simp add: length_squared_def vadd_def vmul_def vneg_def dot_def algebra_simps)

lemma gravity_vzero: "vadd v (vmul (vneg vzero) c) = v"
  by (simp add: vadd_def vmul_def vneg_def vzero_def)

lemma length_squared_cancel_gravity:
  assumes "unit_or_zero n" and "0 \<le> c"
  shows "length_squared (cancel_radial (vadd v (vmul (vneg n) c)) n) \<le> length_squared v"
proof (cases "n = vzero")
  case True
  then show ?thesis by (simp add: gravity_vzero cancel_radial_def dot_vzero_right)
next
  case False
  with assms(1) have u: "length_squared n = 1" by (simp add: unit_or_zero_def)
  let ?a = "dot v n" and ?w = "vadd v (vmul (vneg n) c)"
  have d: "dot ?w n = ?a - c" by (simp add: dot_gravity u)
  have l: "length_squared ?w = length_squared v - 2 * c * ?a + c * c"
    by (simp add: length_squared_gravity u)
  show ?thesis
  proof (cases "?a - c < 0")
    case True
    have "length_squared (vsub ?w (vmul n (?a - c))) = length_squared v - ?a * ?a"
      by (simp add: length_squared_vsub_vmul d l u algebra_simps)
    moreover have "0 \<le> ?a * ?a" by simp
    ultimately show ?thesis using True by (simp add: cancel_radial_def d)
  next
    case False
    then have "c \<le> ?a" by simp
    with assms(2) have "0 \<le> c * (2 * ?a - c)" by (intro mult_nonneg_nonneg) simp_all
    then have "length_squared ?w \<le> length_squared v" by (simp add: l algebra_simps)
    with False show ?thesis by (simp add: cancel_radial_def d)
  qed
qed

lemma vmul_vmul: "vmul (vmul a b) c = vmul a (b * c)"
  by (simp add: vmul_def algebra_simps)

lemma vlength_mono: "length_squared a \<le> length_squared b \<Longrightarrow> vlength a \<le> vlength b"
  by (simp add: vlength_def)

text \<open>A frame of v2.py that completes without movement input and ends grounded leaves
  at most the friction factor of the speed.\<close>

lemma update_speed_decay:
  assumes "model s \<noteq> None" and "cache_ok s" and "no_move_input inp" and "0 \<le> dt inp"
    and "grounded (projr (update Physics inp s))"
  shows "vlength (velocity (projr (update Physics inp s)))
           \<le> FRICTION Physics * vlength (velocity s)"
proof -
  let ?n = "frame_normal Physics s"
  have n: "unit_or_zero ?n" using assms(2) by (rule frame_normal_unit_or_zero)
  have c: "0 \<le> GRAVITY Physics * dt inp" using assms(4) by (simp add: Physics_simps)
  have "length_squared (cancel_radial (integrated_velocity Physics inp s) ?n)
          \<le> length_squared (velocity s)"
    unfolding integrated_velocity_def vmul_vmul
    by (rule length_squared_cancel_gravity [OF n c])
  then have "vlength (cancel_radial (integrated_velocity Physics inp s) ?n)
          \<le> vlength (velocity s)"
    by (rule vlength_mono)
  moreover have "velocity (projr (update Physics inp s))
      = vmul (cancel_radial (integrated_velocity Physics inp s) ?n) (FRICTION Physics)"
    using assms(1,3,5) by (simp add: update_velocity update_grounded_iff)
  ultimately show ?thesis by (simp add: vlength_vmul Physics_simps)
qed

lemma cache_ok_update: "cache_ok s \<Longrightarrow> cache_ok (instance_of (update ph inp s))"
  by (auto simp: cache_ok_def update_cache get_surface_normal_def Let_def
      unit_or_zero_normalized split: option.splits)

lemma tangential_gravity:
  assumes "unit_or_zero n"
  shows "tangential (vadd v (vmul (vneg n) c)) n = tangential v n"
proof (cases "n = vzero")
  case True
  then show ?thesis by (simp add: gravity_vzero)
next
  case False
  with assms have u: "length_squared n = 1" by (simp add: unit_or_zero_def)
  show ?thesis
    by (simp add: tangential_def dot_gravity u)
       (simp add: vsub_def vadd_def vmul_def vneg_def algebra_simps)
qed

lemma tangential_vmul: "tangential (vmul x f) n = vmul (tangential x n) f"
  by (simp add: tangential_def dot_vmul_left) (simp add: vsub_def vmul_def algebra_simps)

text \<open>In such a frame the part of the velocity across the frame's normal is scaled by
  exactly the friction factor.\<close>

lemma update_tangential_decay:
  assumes "model s \<noteq> None" and "cache_ok s" and "no_move_input inp"
    and "grounded (projr (update Physics inp s))"
  shows "tangential (velocity (projr (update Physics inp s))) (frame_normal Physics s)
           = vmul (tangential (velocity s) (frame_normal Physics s)) (FRICTION Physics)"
proof -
  let ?n = "frame_normal Physics s"
  have n: "unit_or_zero ?n" using assms(2) by (rule frame_normal_unit_or_zero)
  have "tangential (integrated_velocity Physics inp s) ?n = tangential (velocity s) ?n"
    unfolding integrated_velocity_def vmul_vmul by (rule tangential_gravity [OF n])
  then show ?thesis
    using assms(1,3,4)
    by (simp add: update_velocity update_grounded_iff tangential_vmul
        tangential_cancel_radial [OF n])
qed

lemma run_Update_Cons:
  "update ph inp s = Inr s' \<Longrightarrow> run ph (Update inp # es) s = run ph es s'"
  by (simp add: run_def)

text \<open>Over a run of such frames the speed decays geometrically.\<close>

lemma run_speed_decay:
  assumes "cache_ok s" and "\<forall>inp \<in> set inps. no_move_input inp \<and> 0 \<le> dt inp"
    and "all_grounded Physics inps s"
  shows "vlength (velocity (instance_of (run Physics (map Update inps) s)))
           \<le> FRICTION Physics ^ length inps * vlength (velocity s)"
  using assms
proof (induction inps arbitrary: s)
  case Nil
  then show ?case by (simp add: run_def instance_of_simps)
next
  case (Cons inp inps)
  from Cons.prems(3) obtain s' where u: "update Physics inp s = Inr s'"
    and g: "grounded s'" and r: "all_grounded Physics inps s'"
    by (auto split: sum.splits)
  have m: "model s \<noteq> None" using u by (rule update_Inr_model)
  have p: "projr (update Physics inp s) = s'" using u by simp
  have one: "vlength (velocity s') \<le> FRICTION Physics * vlength (velocity s)"
    using update_speed_decay [OF m Cons.prems(1), of inp] Cons.prems(2) g p by simp
  have ok: "cache_ok s'" using cache_ok_update [OF Cons.prems(1), of Physics inp] u
    by (simp add: instance_of_simps)
  have "vlength (velocity (instance_of (run Physics (map Update inps) s')))
          \<le> FRICTION Physics ^ length inps * vlength (velocity s')"
    using Cons.prems(2) r ok by (intro Cons.IH) simp_all
  also have "\<dots> \<le> FRICTION Physics ^ length inps * (FRICTION Physics * vlength (velocity s))"
    using one by (intro mult_left_mono) (simp_all add: Physics_simps)
  finally show ?case by (simp add: run_Update_Cons [OF u] mult.assoc mult.left_commute)
qed

lemma frame_normal_sliding: "frame_normal Physics sliding_player = Vec3 0 1 0"
  by (simp add: frame_normal_def get_surface_normal_def player0_def init_v3_def Physics_simps
      vsub_origin normalized_axis_y standing_player_def sliding_player_def)

lemma target_distance_sliding: "target_distance Physics sliding_player = 33"
  by (simp add: target_distance_def sliding_player_def standing_player_def player0_def
      init_v3_def Physics_simps)

lemma integrated_velocity_sliding:
  "integrated_velocity Physics inp sliding_player = Vec3 1 (- (25 * dt inp)) 0"
  by (simp add: integrated_velocity_def frame_normal_sliding Physics_simps vadd_def vmul_def
      vneg_def)
     (simp add: sliding_player_def standing_player_def)

lemma integrated_position_sliding_idle:
  "integrated_position Physics (idle_frame (1 / 60)) sliding_player
     = Vec3 (1 / 60) (33 - 25 / 3600) 0"
  by (simp add: integrated_position_def integrated_velocity_sliding move_amount_idle
      vadd_def vmul_def)
     (simp add: sliding_player_def standing_player_def idle_frame_def)

lemma lands_sliding_idle:
  "vlength (integrated_position Physics (idle_frame (1 / 60)) sliding_player)
     \<le> target_distance Physics sliding_player"
  by (simp add: integrated_position_sliding_idle target_distance_sliding vlength_le_iff
      length_squared_def)

lemma integrated_position_sliding_strafe:
  "integrated_position Physics (strafe_frame (1 / 60)) sliding_player
     = Vec3 (- (1 / 10)) (33 - 25 / 3600) 0"
  by (simp add: integrated_position_def integrated_velocity_sliding move_amount_moving
      no_move_input_strafe move_direction_strafe vadd_def vmul_def)
     (simp add: sliding_player_def standing_player_def strafe_frame_def player0_def
        init_v3_def Physics_simps)

lemma lands_sliding_strafe:
  "vlength (integrated_position Physics (strafe_frame (1 / 60)) sliding_player)
     \<le> target_distance Physics sliding_player"
  by (simp add: integrated_position_sliding_strafe target_distance_sliding vlength_le_iff
      length_squared_def)

lemma held_idle: "held (idle_frame d) k = 0"
  by (simp add: held_def idle_frame_def)

subsection \<open>Invariants of a run\<close>

lemma cache_ok_step:
  assumes "cache_ok (instance_of r)"
  shows "cache_ok (instance_of (step ph r e))"
proof (cases r)
  case (Inl a)
  then show ?thesis using assms by simp
next
  case (Inr s)
  with assms have a: "cache_ok s" by (simp add: instance_of_simps)
  show ?thesis
  proof (cases e)
    case (Update inp)
    then show ?thesis using Inr a by (simp add: cache_ok_update)
  next
    case Jump
    then show ?thesis
      using Inr a
      by (auto simp: jump_def case_prod_beta cache_ok_def get_surface_normal_def Let_def
          unit_or_zero_normalized instance_of_simps split: option.splits)
  next
    case Reset
    then show ?thesis using Inr a by (simp add: reset_position_def instance_of_simps)
  qed
qed

lemma cache_ok_foldl:
  "cache_ok (instance_of r) \<Longrightarrow> cache_ok (instance_of (foldl (step ph) r es))"
  by (induction es arbitrary: r) (simp_all add: cache_ok_step)

lemma cache_ok_run: "cache_ok s \<Longrightarrow> cache_ok (instance_of (run ph es s))"
  unfolding run_def by (rule cache_ok_foldl) (simp add: instance_of_simps)

lemma cache_ok_init_v3: "cache_ok (projr (init_v3 ph pos))"
  by (simp add: cache_ok_def init_v3_def)

lemma cache_ok_concrete:
  "cache_ok cube_player" "cache_ok falling_player" "cache_ok sliding_player"
  by (simp_all add: cache_ok_def cube_player_def falling_player_def sliding_player_def
      standing_player_def player0_def init_v3_def)

text \<open>A frame that completes with the integrated position at or below the target
  distance.\<close>

lemma update_lands:
  assumes "model s \<noteq> None"
    and "vlength (integrated_position Physics inp s) \<le> target_distance Physics s"
    and "cache_ok s"
  shows "grounded (projr (update Physics inp s))
    \<and> (integrated_position Physics inp s \<noteq> PLANET_CENTER Physics \<longrightarrow>
         vlength (vsub (position (projr (update Physics inp s))) (PLANET_CENTER Physics))
           = target_distance Physics s)
    \<and> 0 \<le> dot (velocity (projr (update Physics inp s))) (frame_normal Physics s)
    \<and> velocity (projr (update Physics inp s))
        = (if no_move_input inp
           then vmul (cancel_radial (integrated_velocity Physics inp s) (frame_normal Physics s))
                     (FRICTION Physics)
           else cancel_radial (integrated_velocity Physics inp s) (frame_normal Physics s))
    \<and> tangential (cancel_radial (integrated_velocity Physics inp s) (frame_normal Physics s))
                  (frame_normal Physics s)
        = tangential (integrated_velocity Physics inp s) (frame_normal Physics s)"
proof -
  let ?n = "frame_normal Physics s" and ?w = "integrated_velocity Physics inp s"
  let ?s' = "projr (update Physics inp s)"
  have n: "unit_or_zero ?n" using assms(3) by (rule frame_normal_unit_or_zero)
  have t: "0 \<le> target_distance Physics s"
    using assms(2) vlength_nonneg [of "integrated_position Physics inp s"] by simp
  have g: "grounded ?s'"
    using assms(1,2) by (simp add: update_grounded_iff)
  have p: "integrated_position Physics inp s \<noteq> PLANET_CENTER Physics \<Longrightarrow>
      vlength (vsub (position ?s') (PLANET_CENTER Physics)) = target_distance Physics s"
    using assms(1,2) t
    by (simp add: update_position Physics_simps vsub_origin vlength_snap vzero_def)
  have v: "velocity ?s'
        = (if no_move_input inp then vmul (cancel_radial ?w ?n) (FRICTION Physics)
           else cancel_radial ?w ?n)"
    using assms(1,2) by (simp add: update_velocity)
  have d: "0 \<le> dot (velocity ?s') ?n"
    using dot_cancel_radial_nonneg [OF n, of ?w]
    by (simp add: v dot_vmul_left Physics_simps)
  show ?thesis using g p v d tangential_cancel_radial [OF n] by simp
qed

lemma dot_vadd_vmul_other: "dot (vadd v (vmul u c)) n = dot v n + c * dot u n"
  by (simp add: dot_def vadd_def vmul_def algebra_simps)

subsection \<open>The statements that raise\<close>

text \<open>The constructors of v2.py and of b33132.0.py fail whatever the constants are:
  the failure is the missing method, or the missing import, not a check of the
  configuration.\<close>

lemma init_raises: "init ph pos = Inl (AttributeError ''copy'')"
  by (simp add: init_def)

lemma init_b0_raises: "init_b0 ph pos = Inl (NameError ''Vec2'')"
  by (simp add: init_b0_def)

lemma update_k6_raises: "update_k6 inp c = Inl (AttributeError ''up'', c)"
  by (simp add: update_k6_def)

section \<open>Theorems\<close>

text \<open>
  C1 (as amended).  Take a frame of v2.py on an instance with a model attached, whose
  integrated position is at or below the target distance, in a state with a cached
  normal that is a result of \<^verbatim>\<open>normalized()\<close> (as in every state that a run of the
  program reaches).  Then the frame completes and ends grounded; if the integrated
  position is not the planet centre, the new position is exactly at the target distance
  from the centre; the new velocity has a non-negative component along the normal that
  the frame queried at its start; the velocity is the integrated velocity with its
  inward part along that normal removed (then scaled by the friction factor when no
  movement key is held), and removing the inward part leaves the tangential part as it
  was.  When the query misses the cache, that normal is the normalised offset of the
  position at the start of the frame from the planet centre.
\<close>

theorem update_collision_resolution:
  "(model s \<noteq> None
      \<and> vlength (integrated_position Physics inp s) \<le> target_distance Physics s
      \<and> cache_ok s \<longrightarrow>
      (\<exists>s'. update Physics inp s = Inr s'
         \<and> grounded s'
         \<and> (integrated_position Physics inp s \<noteq> PLANET_CENTER Physics \<longrightarrow>
              vlength (vsub (position s') (PLANET_CENTER Physics))
                = target_distance Physics s)
         \<and> 0 \<le> dot (velocity s') (frame_normal Physics s)
         \<and> velocity s'
             = (if no_move_input inp
                then vmul (cancel_radial (integrated_velocity Physics inp s)
                                         (frame_normal Physics s))
                          (FRICTION Physics)
                else cancel_radial (integrated_velocity Physics inp s)
                                   (frame_normal Physics s))
         \<and> tangential (cancel_radial (integrated_velocity Physics inp s)
                                      (frame_normal Physics s))
                       (frame_normal Physics s)
             = tangential (integrated_velocity Physics inp s) (frame_normal Physics s)))
   \<and> (cache_miss s (position s) \<longrightarrow>
        frame_normal Physics s = normal_at Physics (position s))"
proof (intro conjI impI)
  assume a: "model s \<noteq> None
      \<and> vlength (integrated_position Physics inp s) \<le> target_distance Physics s
      \<and> cache_ok s"
  let ?s' = "projr (update Physics inp s)"
  have u: "update Physics inp s = Inr ?s'" using a by (intro update_completes) simp
  have l: "grounded ?s'
    \<and> (integrated_position Physics inp s \<noteq> PLANET_CENTER Physics \<longrightarrow>
         vlength (vsub (position ?s') (PLANET_CENTER Physics)) = target_distance Physics s)
    \<and> 0 \<le> dot (velocity ?s') (frame_normal Physics s)
    \<and> velocity ?s'
        = (if no_move_input inp
           then vmul (cancel_radial (integrated_velocity Physics inp s) (frame_normal Physics s))
                     (FRICTION Physics)
           else cancel_radial (integrated_velocity Physics inp s) (frame_normal Physics s))
    \<and> tangential (cancel_radial (integrated_velocity Physics inp s) (frame_normal Physics s))
                  (frame_normal Physics s)
        = tangential (integrated_velocity Physics inp s) (frame_normal Physics s)"
    using a by (intro update_lands) simp_all
  show "\<exists>s'. update Physics inp s = Inr s'
         \<and> grounded s'
         \<and> (integrated_position Physics inp s \<noteq> PLANET_CENTER Physics \<longrightarrow>
              vlength (vsub (position s') (PLANET_CENTER Physics))
                = target_distance Physics s)
         \<and> 0 \<le> dot (velocity s') (frame_normal Physics s)
         \<and> velocity s'
             = (if no_move_input inp
                then vmul (cancel_radial (integrated_velocity Physics inp s)
                                         (frame_normal Physics s))
                          (FRICTION Physics)
                else cancel_radial (integrated_velocity Physics inp s)
                                   (frame_normal Physics s))
         \<and> tangential (cancel_radial (integrated_velocity Physics inp s)
                                      (frame_normal Physics s))
                       (frame_normal Physics s)
             = tangential (integrated_velocity Physics inp s) (frame_normal Physics s)"
    by (rule exI [of _ ?s']) (use u l in blast)
next
  assume "cache_miss s (position s)"
  then show "frame_normal Physics s = normal_at Physics (position s)"
    by (simp add: frame_normal_def normal_at_def get_surface_normal_miss)
qed

theorem update_collision_resolution_witness:
  "model cube_player \<noteq> None
   \<and> vlength (integrated_position Physics (idle_frame 1) cube_player)
       \<le> target_distance Physics cube_player
   \<and> cache_ok cube_player
   \<and> integrated_position Physics (idle_frame 1) cube_player \<noteq> PLANET_CENTER Physics
   \<and> cache_miss cube_player (position cube_player)
   \<and> \<not> isl (update Physics (idle_frame 1) cube_player)
   \<and> grounded (projr (update Physics (idle_frame 1) cube_player))
   \<and> vlength (vsub (position (projr (update Physics (idle_frame 1) cube_player)))
                   (PLANET_CENTER Physics))
       = target_distance Physics cube_player
   \<and> 0 \<le> dot (velocity (projr (update Physics (idle_frame 1) cube_player)))
              (frame_normal Physics cube_player)
   \<and> frame_normal Physics cube_player = normal_at Physics (position cube_player)"
proof -
  have h1: "vlength (integrated_position Physics (idle_frame 1) cube_player)
      \<le> target_distance Physics cube_player"
    unfolding integrated_position_cube vlength_axis_y target_distance_cube by simp
  have ne: "integrated_position Physics (idle_frame 1) cube_player \<noteq> PLANET_CENTER Physics"
    by (simp add: integrated_position_cube Physics_simps)
  have cm: "cache_miss cube_player (position cube_player)"
    by (simp add: cache_miss_def cube_player_def player0_def init_v3_def)
  note t = update_collision_resolution [of cube_player "idle_frame 1"]
  from t h1 model_concrete(1) cache_ok_concrete(1) ne
  obtain s' where u: "update Physics (idle_frame 1) cube_player = Inr s'"
    and g: "grounded s'"
    and p: "vlength (vsub (position s') (PLANET_CENTER Physics))
              = target_distance Physics cube_player"
    and d: "0 \<le> dot (velocity s') (frame_normal Physics cube_player)"
    by blast
  have n: "frame_normal Physics cube_player = normal_at Physics (position cube_player)"
    using t cm by blast
  have e: "projr (update Physics (idle_frame 1) cube_player) = s'" using u by simp
  have i: "\<not> isl (update Physics (idle_frame 1) cube_player)" using u by simp
  show ?thesis
    unfolding e using h1 model_concrete(1) cache_ok_concrete(1) ne cm i g p d n by blast
qed

text \<open>C1 as stated fails in two ways.  When the integrated position is the planet
  centre, the frame ends at distance 0 from the centre, and the snap leaves it there.
  And the component that is cancelled is the one along the normal queried at the
  start of the frame: the sliding player with the left key held ends the frame with
  velocity \<open>(1, 0, 0)\<close> at a position with a negative first coordinate, so the velocity
  points inward across the surface normal at the resolved position.\<close>

theorem update_collision_counterexample:
  "\<not> isl (update Physics (idle_frame 1) falling_player)
   \<and> vlength (integrated_position Physics (idle_frame 1) falling_player)
       \<le> target_distance Physics falling_player
   \<and> vlength (vsub (position (projr (update Physics (idle_frame 1) falling_player)))
                   (PLANET_CENTER Physics))
       \<noteq> target_distance Physics falling_player
   \<and> \<not> isl (update Physics (strafe_frame (1 / 60)) sliding_player)
   \<and> vlength (integrated_position Physics (strafe_frame (1 / 60)) sliding_player)
       \<le> target_distance Physics sliding_player
   \<and> velocity (projr (update Physics (strafe_frame (1 / 60)) sliding_player)) = Vec3 1 0 0
   \<and> dot (velocity (projr (update Physics (strafe_frame (1 / 60)) sliding_player)))
         (normal_at Physics (position (projr (update Physics (strafe_frame (1 / 60))
                                                sliding_player))))
       < 0"
proof -
  let ?f = "update Physics (idle_frame 1) falling_player"
  let ?g = "update Physics (strafe_frame (1 / 60)) sliding_player"
  let ?q = "Vec3 (- (1 / 10)) (33 - 25 / 3600) 0"
  have a1: "\<not> isl ?f"
    using update_completes [OF model_concrete(2), of Physics "idle_frame 1"]
    by (metis sum.disc(2))
  have a2: "vlength (integrated_position Physics (idle_frame 1) falling_player)
       \<le> target_distance Physics falling_player"
    unfolding integrated_position_falling target_distance_falling
    by (simp add: vlength_def length_squared_def)
  have a3: "vlength (vsub (position (projr ?f)) (PLANET_CENTER Physics))
       \<noteq> target_distance Physics falling_player"
    using a2
    by (simp add: update_position [OF model_concrete(2)] integrated_position_falling
        target_distance_falling vlength_def length_squared_def normalized_def vmul_def
        vsub_def vzero_def Physics_simps)
  have b1: "\<not> isl ?g"
    using update_completes [OF model_concrete(3), of Physics "strafe_frame (1 / 60)"]
    by (metis sum.disc(2))
  have b3: "velocity (projr ?g) = Vec3 1 0 0"
    using lands_sliding_strafe
    by (simp add: update_velocity [OF model_concrete(3)] no_move_input_strafe
        integrated_velocity_sliding frame_normal_sliding cancel_radial_def dot_def vsub_def
        vmul_def)
       (simp add: strafe_frame_def)
  have p: "position (projr ?g) = vmul (normalized ?q) 33"
    using lands_sliding_strafe
    by (simp add: update_position [OF model_concrete(3)] integrated_position_sliding_strafe
        target_distance_sliding)
  have "vx (normalized ?q) < 0" by (rule vx_normalized_neg) simp
  then have "vx (vmul (normalized ?q) 33) < 0" by (simp add: vmul_def)
  then have "vx (normalized (vmul (normalized ?q) 33)) < 0" by (rule vx_normalized_neg)
  then have b4: "dot (velocity (projr ?g)) (normal_at Physics (position (projr ?g))) < 0"
    unfolding b3 p by (simp add: normal_at_def Physics_simps vsub_origin dot_def)
  show ?thesis using a1 a2 a3 b1 lands_sliding_strafe b3 b4 by blast
qed

text \<open>
  C2 (as amended).  In every state with \<open>grounded = True\<close>, \<open>jump\<close> of v2.py clears the flag
  and adds to the velocity the vector that the surface-normal query returns at the
  player's position, times the jump height.  Whenever that vector has length one, the
  component of the velocity along it grows by exactly the jump height.  When the query
  misses the cache, the vector is the normalised offset of the position from the planet
  centre.  \<open>jump\<close> of buildv06.6.25.py clears the flag and pushes along the entity's up
  axis, so the component of the velocity along a vector \<open>n\<close> grows by the jump height times
  the component of the up axis along \<open>n\<close>.
\<close>

theorem jump_grounded_impulse:
  "(grounded s \<longrightarrow>
      \<not> grounded (jump ph s)
    \<and> velocity (jump ph s) = vadd (velocity s) (vmul (frame_normal ph s) (jump_height s)))
   \<and> (grounded s \<and> length_squared (frame_normal ph s) = 1 \<longrightarrow>
        dot (velocity (jump ph s)) (frame_normal ph s)
          = dot (velocity s) (frame_normal ph s) + jump_height s)
   \<and> (cache_miss s (position s) \<longrightarrow>
        frame_normal ph s = normalized (vsub (position s) (PLANET_CENTER ph)))
   \<and> (grounded s \<longrightarrow>
        \<not> grounded (jump_v06 up s)
      \<and> velocity (jump_v06 up s) = vadd (velocity s) (vmul up (jump_height s))
      \<and> dot (velocity (jump_v06 up s)) n = dot (velocity s) n + jump_height s * dot up n)"
  by (simp add: jump_grounded dot_vadd_vmul jump_v06_def dot_vadd_vmul_other)
     (simp add: frame_normal_def get_surface_normal_miss)

theorem jump_grounded_impulse_witness:
  "grounded standing_player \<and> length_squared (frame_normal Physics standing_player) = 1
   \<and> cache_miss standing_player (position standing_player)
   \<and> \<not> grounded (jump Physics standing_player)
   \<and> dot (velocity (jump Physics standing_player)) (frame_normal Physics standing_player)
       = dot (velocity standing_player) (frame_normal Physics standing_player)
         + jump_height standing_player
   \<and> frame_normal Physics standing_player
       = normalized (vsub (position standing_player) (PLANET_CENTER Physics))
   \<and> \<not> grounded (jump_v06 (Vec3 0 1 0) standing_player)
   \<and> dot (velocity (jump_v06 (Vec3 0 1 0) standing_player)) (Vec3 0 1 0)
       = dot (velocity standing_player) (Vec3 0 1 0)
         + jump_height standing_player * dot (Vec3 0 1 0) (Vec3 0 1 0)"
proof -
  have g: "grounded standing_player" by (simp add: standing_player_def)
  have u: "length_squared (frame_normal Physics standing_player) = 1"
    by (simp add: frame_normal_standing length_squared_def)
  have m: "cache_miss standing_player (position standing_player)"
    by (simp add: cache_miss_def standing_player_def player0_def init_v3_def)
  show ?thesis
    using jump_grounded_impulse [of standing_player Physics "Vec3 0 1 0" "Vec3 0 1 0"] g u m
    by blast
qed

text \<open>C2 as stated fails for a grounded player at the planet centre: the normal there
  is the zero vector, and the jump adds nothing to the velocity.\<close>

theorem jump_at_center_counterexample:
  "grounded center_player
   \<and> velocity (jump Physics center_player) = velocity center_player
   \<and> dot (velocity (jump Physics center_player))
         (normalized (vsub (position center_player) (PLANET_CENTER Physics)))
     \<noteq> dot (velocity center_player)
           (normalized (vsub (position center_player) (PLANET_CENTER Physics)))
         + jump_height center_player"
  by (simp add: center_player_def player0_def init_v3_def Physics_simps vsub_def normalized_def
      length_squared_def vzero_def dot_def jump_def get_surface_normal_def vadd_def vmul_def)

text \<open>
  C3 (as amended).  In an airborne state of v2.py with a model attached, a frame whose
  integrated position is above the target distance completes, ends airborne and adds
  only gravity times \<open>dt\<close> to the velocity, whatever keys are held; the movement input
  enters the position, as \<open>move_amount\<close> times \<open>dt\<close>.  With a movement key held,
  \<open>move_amount\<close> is the movement direction times the speed times the air-control factor,
  which is the grounded amount scaled by that factor; the factor of the repository
  is at least 0 and below 1, so with its constants an airborne amount is strictly
  shorter than the grounded amount for the same input, unless both are zero.
\<close>

theorem airborne_movement:
  "(model s \<noteq> None \<and> \<not> grounded s
      \<and> target_distance ph s < vlength (integrated_position ph inp s) \<longrightarrow>
      (\<exists>s'. update ph inp s = Inr s'
         \<and> \<not> grounded s'
         \<and> velocity s'
             = vadd (velocity s) (vmul (vmul (vneg (frame_normal ph s)) (GRAVITY ph)) (dt inp))
         \<and> position s'
             = vadd (position s) (vmul (vadd (velocity s') (move_amount ph inp s)) (dt inp))))
   \<and> (\<not> grounded s \<and> \<not> no_move_input inp \<longrightarrow>
        move_amount ph inp s = vmul (vmul (move_direction inp) (speed s)) (AIR_CONTROL ph))
   \<and> move_amount ph inp (s\<lparr>grounded := False\<rparr>)
        = vmul (move_amount ph inp (s\<lparr>grounded := True\<rparr>)) (AIR_CONTROL ph)
   \<and> 0 \<le> AIR_CONTROL Physics \<and> AIR_CONTROL Physics < 1
   \<and> (move_amount Physics inp (s\<lparr>grounded := True\<rparr>) \<noteq> vzero \<longrightarrow>
        vlength (move_amount Physics inp (s\<lparr>grounded := False\<rparr>))
          < vlength (move_amount Physics inp (s\<lparr>grounded := True\<rparr>)))"
proof -
  let ?s' = "projr (update ph inp s)"
  have b: "\<exists>s'. update ph inp s = Inr s'
         \<and> \<not> grounded s'
         \<and> velocity s'
             = vadd (velocity s) (vmul (vmul (vneg (frame_normal ph s)) (GRAVITY ph)) (dt inp))
         \<and> position s'
             = vadd (position s) (vmul (vadd (velocity s') (move_amount ph inp s)) (dt inp))"
    if m: "model s \<noteq> None"
      and a: "target_distance ph s < vlength (integrated_position ph inp s)"
  proof -
    have u: "update ph inp s = Inr ?s'" using m by (rule update_completes)
    have v: "velocity ?s'
        = vadd (velocity s) (vmul (vmul (vneg (frame_normal ph s)) (GRAVITY ph)) (dt inp))"
      by (simp add: update_airborne(1) [OF m a] integrated_velocity_def)
    have p: "position ?s'
        = vadd (position s) (vmul (vadd (velocity ?s') (move_amount ph inp s)) (dt inp))"
      by (simp add: update_airborne(1,2) [OF m a] integrated_position_def)
    show ?thesis
      by (rule exI [of _ ?s']) (use u v p update_airborne(3) [OF m a] in blast)
  qed
  show ?thesis
    using b move_amount_air_scaled [of ph inp s] move_amount_air_weaker [of inp s]
    by (simp add: move_amount_moving Physics_simps)
qed

theorem airborne_movement_witness:
  "model cube_player \<noteq> None \<and> \<not> grounded cube_player
   \<and> target_distance Physics cube_player
       < vlength (integrated_position Physics (walk_frame (1 / 60)) cube_player)
   \<and> \<not> no_move_input (walk_frame (1 / 60))
   \<and> \<not> isl (update Physics (walk_frame (1 / 60)) cube_player)
   \<and> \<not> grounded (projr (update Physics (walk_frame (1 / 60)) cube_player))
   \<and> velocity (projr (update Physics (walk_frame (1 / 60)) cube_player))
       = vadd (velocity cube_player)
              (vmul (vmul (vneg (frame_normal Physics cube_player)) (GRAVITY Physics))
                    (dt (walk_frame (1 / 60))))
   \<and> move_amount Physics (walk_frame (1 / 60)) cube_player
       = vmul (vmul (move_direction (walk_frame (1 / 60))) (speed cube_player))
              (AIR_CONTROL Physics)
   \<and> move_amount Physics (walk_frame (1 / 60)) (cube_player\<lparr>grounded := True\<rparr>) \<noteq> vzero
   \<and> vlength (move_amount Physics (walk_frame (1 / 60)) (cube_player\<lparr>grounded := False\<rparr>))
       < vlength (move_amount Physics (walk_frame (1 / 60)) (cube_player\<lparr>grounded := True\<rparr>))"
proof -
  have g: "\<not> grounded cube_player" by (simp add: cube_player_def player0_def init_v3_def)
  have z: "move_amount Physics (walk_frame (1 / 60)) (cube_player\<lparr>grounded := True\<rparr>) \<noteq> vzero"
    by (simp add: move_amount_moving no_move_input_walk move_direction_walk vmul_def
        vzero_def)
       (simp add: cube_player_def player0_def init_v3_def Physics_simps)
  note t = airborne_movement [of cube_player Physics "walk_frame (1 / 60)"]
  from t g model_concrete(1) airborne_cube_walk
  obtain s' where u: "update Physics (walk_frame (1 / 60)) cube_player = Inr s'"
    and a: "\<not> grounded s'"
    and v: "velocity s'
       = vadd (velocity cube_player)
              (vmul (vmul (vneg (frame_normal Physics cube_player)) (GRAVITY Physics))
                    (dt (walk_frame (1 / 60))))"
    by blast
  have w: "move_amount Physics (walk_frame (1 / 60)) cube_player
       = vmul (vmul (move_direction (walk_frame (1 / 60))) (speed cube_player))
              (AIR_CONTROL Physics)"
    using t g no_move_input_walk [of "1 / 60"] by blast
  have e: "projr (update Physics (walk_frame (1 / 60)) cube_player) = s'" using u by simp
  have i: "\<not> isl (update Physics (walk_frame (1 / 60)) cube_player)" using u by simp
  have k: "vlength (move_amount Physics (walk_frame (1 / 60)) (cube_player\<lparr>grounded := False\<rparr>))
       < vlength (move_amount Physics (walk_frame (1 / 60)) (cube_player\<lparr>grounded := True\<rparr>))"
    using t z by blast
  show ?thesis
    unfolding e
    using g model_concrete(1) airborne_cube_walk no_move_input_walk [of "1 / 60"] i a v w z k
    by blast
qed

text \<open>C3 as stated fails in v2.py: holding the forward key in the air changes where the
  frame puts the player and leaves the velocity as it is without the key.\<close>

theorem position_only_movement_counterexample:
  "\<not> grounded cube_player \<and> \<not> no_move_input (walk_frame (1 / 60))
   \<and> \<not> isl (update Physics (walk_frame (1 / 60)) cube_player)
   \<and> \<not> isl (update Physics (idle_frame (1 / 60)) cube_player)
   \<and> \<not> grounded (projr (update Physics (walk_frame (1 / 60)) cube_player))
   \<and> velocity (projr (update Physics (walk_frame (1 / 60)) cube_player))
       = velocity (projr (update Physics (idle_frame (1 / 60)) cube_player))
   \<and> position (projr (update Physics (walk_frame (1 / 60)) cube_player))
       \<noteq> position (projr (update Physics (idle_frame (1 / 60)) cube_player))"
proof -
  note m = model_concrete(1)
  have g: "\<not> grounded cube_player" by (simp add: cube_player_def player0_def init_v3_def)
  have i1: "\<not> isl (update Physics (walk_frame (1 / 60)) cube_player)"
    using update_completes [OF m, of Physics "walk_frame (1 / 60)"] by (metis sum.disc(2))
  have i2: "\<not> isl (update Physics (idle_frame (1 / 60)) cube_player)"
    using update_completes [OF m, of Physics "idle_frame (1 / 60)"] by (metis sum.disc(2))
  have v: "velocity (projr (update Physics (walk_frame (1 / 60)) cube_player))
       = velocity (projr (update Physics (idle_frame (1 / 60)) cube_player))"
    by (simp add: update_airborne(1) [OF m airborne_cube_walk]
        update_airborne(1) [OF m airborne_cube_idle] integrated_velocity_cube)
       (simp add: walk_frame_def idle_frame_def)
  have p: "position (projr (update Physics (walk_frame (1 / 60)) cube_player))
       \<noteq> position (projr (update Physics (idle_frame (1 / 60)) cube_player))"
    by (simp add: update_airborne(2) [OF m airborne_cube_walk]
        update_airborne(2) [OF m airborne_cube_idle] integrated_position_cube_walk
        integrated_position_cube_60)
  show ?thesis
    using g i1 i2 v p no_move_input_walk [of "1 / 60"]
      update_airborne(3) [OF m airborne_cube_walk]
    by blast
qed

text \<open>
  C4 (as amended).  The cached query of v2.py returns exactly the normalised offset of
  \<open>p\<close> from the planet centre, and stores it under the key of \<open>p\<close>, when the cache is empty
  or holds another key; when the cache holds the key of \<open>p\<close>, the query returns the stored
  vector and leaves the state as it is.  In every state that a run of the program
  reaches from an instance with an empty cache, as a constructor leaves it, also when
  the run stops at a statement that raises, what the query returns for \<open>p\<close> is the exact
  normal of some position that rounds to the same key as \<open>p\<close>.
\<close>

theorem get_surface_normal_cache:
  "(cache_miss s p \<longrightarrow>
      get_surface_normal ph s p
        = (normalized (vsub p (PLANET_CENTER ph)),
           s\<lparr>cache := Some (pos_key p, normalized (vsub p (PLANET_CENTER ph)))\<rparr>))
   \<and> (cache s = Some (pos_key p, n) \<longrightarrow> get_surface_normal ph s p = (n, s))
   \<and> (cache s0 = None \<longrightarrow>
        (\<exists>q. pos_key q = pos_key p
           \<and> fst (get_surface_normal ph (instance_of (run ph es s0)) p)
               = normalized (vsub q (PLANET_CENTER ph))))"
  using get_surface_normal_exact(1) [OF cache_exact_run [OF cache_exact_empty]]
  by (simp add: get_surface_normal_miss get_surface_normal_hit)

theorem get_surface_normal_cache_witness:
  "cache_miss player0 (Vec3 0 34 0)
   \<and> fst (get_surface_normal Physics player0 (Vec3 0 34 0)) = Vec3 0 1 0
   \<and> cache warm_player = Some (pos_key (Vec3 (1 / 25) 34 0), Vec3 0 1 0)
   \<and> get_surface_normal Physics warm_player (Vec3 (1 / 25) 34 0) = (Vec3 0 1 0, warm_player)
   \<and> cache (projr (init_v3 Physics (Vec3 0 34 0))) = None
   \<and> (\<exists>q. pos_key q = pos_key (Vec3 (1 / 25) 34 0)
        \<and> fst (get_surface_normal Physics
                 (instance_of (run Physics [Update (idle_frame (1 / 60)), Jump]
                                 (projr (init_v3 Physics (Vec3 0 34 0)))))
                 (Vec3 (1 / 25) 34 0))
            = normalized (vsub q (PLANET_CENTER Physics)))"
proof -
  have m: "cache_miss player0 (Vec3 0 34 0)"
    by (simp add: cache_miss_def player0_def init_v3_def)
  have "fst (get_surface_normal Physics player0 (Vec3 0 34 0))
          = normalized (vsub (Vec3 0 34 0) (PLANET_CENTER Physics))"
    using get_surface_normal_cache [of player0 "Vec3 0 34 0" Physics] m by simp
  then have a: "fst (get_surface_normal Physics player0 (Vec3 0 34 0)) = Vec3 0 1 0"
    by (simp add: Physics_simps vsub_origin normalized_axis_y)
  have b: "get_surface_normal Physics warm_player (Vec3 (1 / 25) 34 0)
             = (Vec3 0 1 0, warm_player)"
    using get_surface_normal_cache [of warm_player "Vec3 (1 / 25) 34 0" Physics "Vec3 0 1 0"]
      warm_player_cache by simp
  have c: "cache (projr (init_v3 Physics (Vec3 0 34 0))) = None"
    by (simp add: init_v3_def)
  have d: "\<exists>q. pos_key q = pos_key (Vec3 (1 / 25) 34 0)
        \<and> fst (get_surface_normal Physics
                 (instance_of (run Physics [Update (idle_frame (1 / 60)), Jump]
                                 (projr (init_v3 Physics (Vec3 0 34 0)))))
                 (Vec3 (1 / 25) 34 0))
            = normalized (vsub q (PLANET_CENTER Physics))"
    using get_surface_normal_cache [of _ "Vec3 (1 / 25) 34 0" Physics _
        "projr (init_v3 Physics (Vec3 0 34 0))" "[Update (idle_frame (1 / 60)), Jump]"] c
    by blast
  show ?thesis using m a b c d warm_player_cache by blast
qed

text \<open>C4 as stated fails: after a query at the spawn point, a query at a position 0.04
  to its side returns the normal of the spawn point.  The query of buildv06.6.25.py
  returns the normal of the rounded position.\<close>

theorem stale_normal_counterexample:
  "Vec3 (1 / 25) 34 0 \<noteq> PLANET_CENTER Physics
   \<and> fst (get_surface_normal Physics warm_player (Vec3 (1 / 25) 34 0))
       \<noteq> normalized (vsub (Vec3 (1 / 25) 34 0) (PLANET_CENTER Physics))
   \<and> surface_normal_v06 Physics (Vec3 (1 / 250) 34 0)
       \<noteq> normalized (vsub (Vec3 (1 / 250) 34 0) (PLANET_CENTER Physics))"
proof -
  have a: "fst (get_surface_normal Physics warm_player (Vec3 (1 / 25) 34 0)) = Vec3 0 1 0"
    by (simp add: get_surface_normal_hit [OF warm_player_cache])
  have b: "surface_normal_v06 Physics (Vec3 (1 / 250) 34 0) = Vec3 0 1 0"
    by (simp add: surface_normal_v06_def get_surface_normal_v06_def py_round_evals
        Physics_simps vsub_origin normalized_axis_y)
  have c: "vx (normalized (Vec3 (1 / 25) 34 0)) \<noteq> 0" "vx (normalized (Vec3 (1 / 250) 34 0)) \<noteq> 0"
    by (rule vx_normalized_nonzero, simp)+
  have d: "normalized (Vec3 (1 / 25) 34 0) \<noteq> Vec3 0 1 0"
    "normalized (Vec3 (1 / 250) 34 0) \<noteq> Vec3 0 1 0"
    using c by auto
  show ?thesis
    unfolding a b using d by (simp add: Physics_simps vsub_origin)
qed

text \<open>
  C5 (as amended).  Called with the planet centre, the normal query returns without an
  error: the uncached query of b33132.0.py returns the zero vector; the cached query of
  v2.py returns the zero vector when the cache is empty or holds another key, and the
  stored normal when the cache holds the key of the centre.
\<close>

theorem degenerate_normal:
  "get_surface_normal_b0 ph (PLANET_CENTER ph) = vzero
   \<and> (cache_miss s (PLANET_CENTER ph) \<longrightarrow>
        fst (get_surface_normal ph s (PLANET_CENTER ph)) = vzero)
   \<and> (cache s = Some (pos_key (PLANET_CENTER ph), n) \<longrightarrow>
        fst (get_surface_normal ph s (PLANET_CENTER ph)) = n)"
  by (simp add: get_surface_normal_b0_def get_surface_normal_miss get_surface_normal_hit
      vsub_def normalized_def length_squared_def)

theorem degenerate_normal_witness:
  "cache_miss player0 (PLANET_CENTER Physics)
   \<and> fst (get_surface_normal Physics player0 (PLANET_CENTER Physics)) = vzero
   \<and> cache (warm_player\<lparr>cache := Some (pos_key (PLANET_CENTER Physics), Vec3 0 1 0)\<rparr>)
       = Some (pos_key (PLANET_CENTER Physics), Vec3 0 1 0)
   \<and> fst (get_surface_normal Physics
            (warm_player\<lparr>cache := Some (pos_key (PLANET_CENTER Physics), Vec3 0 1 0)\<rparr>)
            (PLANET_CENTER Physics)) = Vec3 0 1 0"
  using degenerate_normal [of Physics player0]
    degenerate_normal [of Physics
      "warm_player\<lparr>cache := Some (pos_key (PLANET_CENTER Physics), Vec3 0 1 0)\<rparr>" "Vec3 0 1 0"]
  by (simp add: cache_miss_def player0_def init_v3_def)

text \<open>C5 as stated fails: what the query returns at the centre is not a unit vector.\<close>

theorem degenerate_normal_counterexample:
  "vlength (fst (get_surface_normal Physics player0 (PLANET_CENTER Physics))) \<noteq> 1
   \<and> vlength (get_surface_normal_b0 Physics (PLANET_CENTER Physics)) \<noteq> 1"
  by (simp add: get_surface_normal_def get_surface_normal_b0_def player0_def init_v3_def
      vsub_def normalized_def length_squared_def vlength_def vzero_def)

text \<open>
  C6 (the code at the failing input).  \<^verbatim>\<open>reset_position\<close> of v2.py raises at its first
  statement in every state and leaves the instance as it was, and the key r does the
  same through the input handler: the player sliding at \<open>(0, 33, 0)\<close> with velocity
  \<open>(1, 0, 0)\<close>, spawned at \<open>(0, 34, 0)\<close>, is still there with that velocity.
  \<^verbatim>\<open>reset_position\<close> of v3.0.py, from any state, sets the position to the recorded start
  position, the velocity to zero, the body rotation to zero and the camera pitch to
  zero.
\<close>

theorem reset_position_raises:
  "reset_position s = Inl (AttributeError ''copy'', s)
   \<and> step ph (Inr s) Reset = Inl (AttributeError ''copy'', s)
   \<and> start_pos sliding_player = Vec3 0 34 0
   \<and> position (instance_of (reset_position sliding_player)) = Vec3 0 33 0
   \<and> velocity (instance_of (reset_position sliding_player)) = Vec3 1 0 0
   \<and> position (reset_position_v3 s) = start_pos s
   \<and> velocity (reset_position_v3 s) = Vec3 0 0 0
   \<and> rotation (reset_position_v3 s) = Vec3 0 0 0
   \<and> camera_pivot_rotation_x (reset_position_v3 s) = 0"
  by (simp add: reset_position_def reset_position_v3_def instance_of_simps)
     (simp add: sliding_player_def standing_player_def player0_def init_v3_def Physics_simps)

text \<open>
  C7 (the code at the failing input).  The controller of b33134k6.6.25.py, grounded and
  sliding with velocity \<open>(1, 0, 0)\<close>, in a frame with no key held: \<^verbatim>\<open>update\<close> raises at
  line 163, before the friction of lines 185 to 187, and the velocity is what it was, so
  the speed has not decayed.  The sliding player of v2.py without a model: \<^verbatim>\<open>update\<close>
  raises at line 102, before the friction of lines 146 to 148, with the velocity as it
  was.  The same player with a model attached: the frame completes, ends grounded, and
  leaves the friction factor times the velocity.
\<close>

theorem friction_not_reached:
  "grounded_k6 sliding_controller \<and> held_keys (idle_frame (1 / 60)) = []
   \<and> no_move_input (idle_frame (1 / 60))
   \<and> update_k6 (idle_frame (1 / 60)) sliding_controller
       = Inl (AttributeError ''up'', sliding_controller)
   \<and> velocity_k6 (instance_of (update_k6 (idle_frame (1 / 60)) sliding_controller))
       = Vec3 1 0 0
   \<and> FRICTION_k6 Module_k6 * vlength (velocity_k6 sliding_controller)
       < vlength (velocity_k6 (instance_of (update_k6 (idle_frame (1 / 60))
                                              sliding_controller)))
   \<and> grounded (sliding_player\<lparr>model := None\<rparr>)
   \<and> isl (update Physics (idle_frame (1 / 60)) (sliding_player\<lparr>model := None\<rparr>))
   \<and> velocity (instance_of (update Physics (idle_frame (1 / 60))
                               (sliding_player\<lparr>model := None\<rparr>)))
       = Vec3 1 0 0
   \<and> \<not> isl (update Physics (idle_frame (1 / 60)) sliding_player)
   \<and> grounded (projr (update Physics (idle_frame (1 / 60)) sliding_player))
   \<and> velocity (projr (update Physics (idle_frame (1 / 60)) sliding_player))
       = vmul (velocity sliding_player) (FRICTION Physics)"
proof -
  let ?c = "update_k6 (idle_frame (1 / 60)) sliding_controller"
  let ?u = "update Physics (idle_frame (1 / 60)) (sliding_player\<lparr>model := None\<rparr>)"
  let ?f = "update Physics (idle_frame (1 / 60)) sliding_player"
  have k1: "grounded_k6 sliding_controller"
    by (simp add: sliding_controller_def init_k6_def)
  have k2: "held_keys (idle_frame (1 / 60)) = []" by (simp add: idle_frame_def)
  have k3: "?c = Inl (AttributeError ''up'', sliding_controller)"
    by (simp add: update_k6_def)
  have k4: "velocity_k6 (instance_of ?c) = Vec3 1 0 0"
    by (simp add: k3 instance_of_simps) (simp add: sliding_controller_def init_k6_def)
  have k5: "FRICTION_k6 Module_k6 * vlength (velocity_k6 sliding_controller)
       < vlength (velocity_k6 (instance_of ?c))"
    unfolding k4
    by (simp add: sliding_controller_def init_k6_def Module_k6_def vlength_def
        length_squared_def)
  have m1: "grounded (sliding_player\<lparr>model := None\<rparr>)"
    by (simp add: sliding_player_def standing_player_def)
  have r: "?u = Inl (AttributeError ''setMat'',
      snd (get_surface_normal Physics (sliding_player\<lparr>model := None\<rparr>)
             (position (sliding_player\<lparr>model := None\<rparr>))))"
    by (rule update_raises) simp
  have m2: "isl ?u" by (simp add: r)
  have m3: "velocity (instance_of ?u) = Vec3 1 0 0"
    by (simp add: r instance_of_simps gsn_fields) (simp add: sliding_player_def)
  have f1: "\<not> isl ?f"
    using update_completes [OF model_concrete(3), of Physics "idle_frame (1 / 60)"]
    by (metis sum.disc(2))
  have f2: "grounded (projr ?f)"
    using lands_sliding_idle by (simp add: update_grounded_iff [OF model_concrete(3)])
  have f3: "velocity (projr ?f) = vmul (velocity sliding_player) (FRICTION Physics)"
    using lands_sliding_idle
    by (simp add: update_velocity [OF model_concrete(3)] no_move_input_idle
        integrated_velocity_sliding frame_normal_sliding cancel_radial_def dot_def vsub_def
        vmul_def)
       (simp add: idle_frame_def sliding_player_def)
  show ?thesis
    using k1 k2 k3 k4 k5 m1 m2 m3 f1 f2 f3 no_move_input_idle [of "1 / 60"] by blast
qed

text \<open>
  C8.  In every state with \<open>grounded = False\<close>, \<open>jump\<close> changes nothing: the state
  after the call is the state before it, so velocity, position, the grounded flag, the
  camera pitch and the normal cache are all as they were.  This holds for the player of
  v2.py and for the controller of b33134k6.6.25.py.
\<close>

theorem jump_airborne_noop:
  "(\<not> grounded s \<longrightarrow> jump ph s = s) \<and> (\<not> grounded_k6 c \<longrightarrow> jump_k6 c = c)"
  by (simp add: jump_def jump_k6_def)

theorem jump_airborne_noop_witness:
  "\<not> grounded player0 \<and> jump Physics player0 = player0
   \<and> \<not> grounded_k6 (projr (init_k6 Module_k6 (Vec3 0 40 0))\<lparr>grounded_k6 := False\<rparr>)
   \<and> jump_k6 (projr (init_k6 Module_k6 (Vec3 0 40 0))\<lparr>grounded_k6 := False\<rparr>)
       = projr (init_k6 Module_k6 (Vec3 0 40 0))\<lparr>grounded_k6 := False\<rparr>"
  using jump_airborne_noop [of player0 Physics
          "projr (init_k6 Module_k6 (Vec3 0 40 0))\<lparr>grounded_k6 := False\<rparr>"]
  by (simp add: player0_def init_v3_def init_k6_def)

text \<open>
  C9 (as amended).  The constructors check no constant.  The constructor of
  b33134k6.6.25.py and the constructor of v3.0.py return an instance for every set of
  constants and every position, and the instance carries the height and the speed of
  the constants it was built from; the constants that the repository ships are valid (a
  positive radius and a non-negative height).
\<close>

theorem init_unchecked:
  "\<not> isl (init_k6 m pos)
   \<and> height_k6 (projr (init_k6 m pos)) = PLAYER_HEIGHT_k6 m
   \<and> speed_k6 (projr (init_k6 m pos)) = PLAYER_SPEED_k6 m
   \<and> \<not> isl (init_v3 ph pos)
   \<and> height (projr (init_v3 ph pos)) = PLAYER_HEIGHT ph
   \<and> speed (projr (init_v3 ph pos)) = MOVE_SPEED ph
   \<and> position (projr (init_v3 ph pos)) = pos
   \<and> 0 < PLANET_RADIUS Physics \<and> 0 \<le> PLAYER_HEIGHT Physics
   \<and> 0 < SURFACE_R_k6 Module_k6 \<and> 0 \<le> PLAYER_HEIGHT_k6 Module_k6"
  by (simp add: init_k6_def init_v3_def Physics_simps Module_k6_def)

text \<open>C9 as stated fails: with a zero radius and a negative height the constructor of
  b33134k6.6.25.py returns an instance, and so does the constructor of v3.0.py.\<close>

theorem init_invalid_counterexample:
  "SURFACE_R_k6 invalid_module_k6 \<le> 0 \<and> PLAYER_HEIGHT_k6 invalid_module_k6 < 0
   \<and> \<not> isl (init_k6 invalid_module_k6 (Vec3 0 32 0))
   \<and> height_k6 (projr (init_k6 invalid_module_k6 (Vec3 0 32 0))) = - 2
   \<and> PLANET_RADIUS invalid_physics \<le> 0 \<and> PLAYER_HEIGHT invalid_physics < 0
   \<and> \<not> isl (init_v3 invalid_physics (Vec3 0 34 0))
   \<and> height (projr (init_v3 invalid_physics (Vec3 0 34 0))) = - 2"
  by (simp add: invalid_physics_def invalid_module_k6_def init_k6_def init_v3_def Physics_def
      Module_k6_def)

text \<open>
  C10 (as amended).  A call of \<^verbatim>\<open>update\<close> of v2.py on an instance with a model attached
  completes, and when the integrated position of the frame is not the planet centre:
  if the flag \<open>grounded\<close> is set after the call, the position is exactly at the target
  distance from the centre, and if it is not set, the position is strictly farther away
  than the target distance.
\<close>

theorem update_grounded_consistent:
  assumes "model s \<noteq> None"
    and "integrated_position Physics inp s \<noteq> PLANET_CENTER Physics"
  shows "\<exists>s'. update Physics inp s = Inr s'
       \<and> (grounded s' \<longrightarrow>
            vlength (vsub (position s') (PLANET_CENTER Physics)) = target_distance Physics s')
       \<and> (\<not> grounded s' \<longrightarrow>
            target_distance Physics s' < vlength (vsub (position s') (PLANET_CENTER Physics)))"
proof -
  let ?s' = "projr (update Physics inp s)"
  note m = assms(1)
  have u: "update Physics inp s = Inr ?s'" using m by (rule update_completes)
  have t: "0 \<le> target_distance Physics s"
    if "vlength (integrated_position Physics inp s) \<le> target_distance Physics s"
    using that vlength_nonneg [of "integrated_position Physics inp s"] by simp
  have h: "target_distance Physics ?s' = target_distance Physics s"
    by (simp add: target_distance_def update_height [OF m])
  have c: "(grounded ?s' \<longrightarrow>
            vlength (vsub (position ?s') (PLANET_CENTER Physics)) = target_distance Physics ?s')
       \<and> (\<not> grounded ?s' \<longrightarrow>
            target_distance Physics ?s' < vlength (vsub (position ?s') (PLANET_CENTER Physics)))"
    using assms(2) t
    by (simp add: h update_grounded_iff [OF m] update_position [OF m] Physics_simps vsub_origin
        vlength_snap vzero_def)
  show ?thesis by (rule exI [of _ ?s']) (use u c in blast)
qed

theorem update_grounded_consistent_witness:
  "model cube_player \<noteq> None
   \<and> integrated_position Physics (idle_frame 1) cube_player \<noteq> PLANET_CENTER Physics
   \<and> \<not> isl (update Physics (idle_frame 1) cube_player)
   \<and> grounded (projr (update Physics (idle_frame 1) cube_player))
   \<and> vlength (vsub (position (projr (update Physics (idle_frame 1) cube_player)))
                   (PLANET_CENTER Physics))
       = target_distance Physics (projr (update Physics (idle_frame 1) cube_player))
   \<and> integrated_position Physics (idle_frame (1 / 60)) cube_player \<noteq> PLANET_CENTER Physics
   \<and> \<not> isl (update Physics (idle_frame (1 / 60)) cube_player)
   \<and> \<not> grounded (projr (update Physics (idle_frame (1 / 60)) cube_player))
   \<and> target_distance Physics (projr (update Physics (idle_frame (1 / 60)) cube_player))
       < vlength (vsub (position (projr (update Physics (idle_frame (1 / 60)) cube_player)))
                       (PLANET_CENTER Physics))"
proof -
  note m = model_concrete(1)
  have a: "integrated_position Physics (idle_frame 1) cube_player \<noteq> PLANET_CENTER Physics"
    by (simp add: integrated_position_cube Physics_simps)
  have b: "integrated_position Physics (idle_frame (1 / 60)) cube_player \<noteq> PLANET_CENTER Physics"
    by (simp add: integrated_position_cube_60 Physics_simps)
  have g1: "grounded (projr (update Physics (idle_frame 1) cube_player))"
    unfolding update_grounded_iff [OF m] integrated_position_cube vlength_axis_y
      target_distance_cube by simp
  have g2: "\<not> grounded (projr (update Physics (idle_frame (1 / 60)) cube_player))"
    unfolding update_grounded_iff [OF m] integrated_position_cube_60 vlength_axis_y
      target_distance_cube by simp
  from update_grounded_consistent [OF m a]
  obtain s1 where u1: "update Physics (idle_frame 1) cube_player = Inr s1"
    and c1: "grounded s1 \<longrightarrow>
      vlength (vsub (position s1) (PLANET_CENTER Physics)) = target_distance Physics s1"
    by blast
  from update_grounded_consistent [OF m b]
  obtain s2 where u2: "update Physics (idle_frame (1 / 60)) cube_player = Inr s2"
    and c2: "\<not> grounded s2 \<longrightarrow>
      target_distance Physics s2 < vlength (vsub (position s2) (PLANET_CENTER Physics))"
    by blast
  have e1: "projr (update Physics (idle_frame 1) cube_player) = s1" using u1 by simp
  have e2: "projr (update Physics (idle_frame (1 / 60)) cube_player) = s2" using u2 by simp
  have i1: "\<not> isl (update Physics (idle_frame 1) cube_player)" using u1 by simp
  have i2: "\<not> isl (update Physics (idle_frame (1 / 60)) cube_player)" using u2 by simp
  show ?thesis
    using m a b i1 i2 g1 g2 c1 c2 unfolding e1 e2 by blast
qed

text \<open>C10 as stated fails when the integrated position is the planet centre: the frame
  completes, the flag is set and the position stays at the centre, at distance 0.\<close>

theorem update_flag_at_center_counterexample:
  "\<not> isl (update Physics (idle_frame 1) falling_player)
   \<and> grounded (projr (update Physics (idle_frame 1) falling_player))
   \<and> vlength (vsub (position (projr (update Physics (idle_frame 1) falling_player)))
                (PLANET_CENTER Physics))
     \<noteq> target_distance Physics (projr (update Physics (idle_frame 1) falling_player))"
proof -
  note m = model_concrete(2)
  have i: "\<not> isl (update Physics (idle_frame 1) falling_player)"
    using update_completes [OF m, of Physics "idle_frame 1"] by (metis sum.disc(2))
  have "grounded (projr (update Physics (idle_frame 1) falling_player))
   \<and> vlength (vsub (position (projr (update Physics (idle_frame 1) falling_player)))
                (PLANET_CENTER Physics))
     \<noteq> target_distance Physics (projr (update Physics (idle_frame 1) falling_player))"
    by (simp add: update_grounded_iff [OF m] update_position [OF m]
        integrated_position_falling vlength_def length_squared_def normalized_def vmul_def
        vsub_def vzero_def Physics_simps target_distance_def update_height [OF m])
       (simp add: falling_player_def cube_player_def player0_def init_v3_def Physics_simps)
  with i show ?thesis by blast
qed

end
